theory Spec2Isabelle
  imports Main "HOL-Library.Word"
begin

unbundle bit_operations_syntax

section \<open>JavaScript numbers, typed arrays and loops\<close>

text \<open>
  bitstore.js computes with JavaScript numbers that are always integers here; they are
  modelled as \<open>int\<close>.  The 32-bit operators are written out with their wrap-around:
  \<open>x << n\<close> converts \<open>x\<close> to a signed 32-bit integer, shifts by \<open>n mod 32\<close>
  and yields a signed 32-bit integer; \<open>x >>> n\<close> converts \<open>x\<close> to an unsigned 32-bit
  integer and shifts right by \<open>n mod 32\<close>.
\<close>

definition ToInt32 :: "int \<Rightarrow> int" where
  "ToInt32 v = (let u = v mod 2 ^ 32 in if u \<ge> 2 ^ 31 then u - 2 ^ 32 else u)"

definition ToUint32 :: "int \<Rightarrow> int" where
  "ToUint32 v = v mod 2 ^ 32"

definition js_shl :: "int \<Rightarrow> int \<Rightarrow> int" where
  "js_shl x n = ToInt32 (x * 2 ^ nat (n mod 32))"

definition js_shr_u :: "int \<Rightarrow> int \<Rightarrow> int" where
  "js_shr_u x n = ToUint32 x div 2 ^ nat (n mod 32)"

text \<open>
  A \<open>Uint8Array\<close>, \<open>Uint16Array\<close> or \<open>Uint32Array\<close> is a list of words.  Reading
  outside the array yields \<open>undefined\<close> (\<open>None\<close>); storing outside the array is
  ignored, which is what \<open>xs[i := v]\<close> does.  Array lengths are below \<open>2 ^ 32\<close>, so
  \<open>a.length >>> 0\<close> is the length.  \<open>null\<close> arrays are \<open>None\<close> of an option type.
\<close>

type_synonym u8 = "8 word"
type_synonym u16 = "16 word"
type_synonym u32 = "32 word"

definition ta_get :: "'a list \<Rightarrow> nat \<Rightarrow> 'a option" where
  "ta_get a i = (if i < length a then Some (a ! i) else None)"

text \<open>
  A value read from a typed array and about to be stored into one: \<open>undefined\<close> is
  converted to a number (\<open>NaN\<close>) and stored as 0.
\<close>

definition or_zero :: "'a::zero option \<Rightarrow> 'a" where
  "or_zero v = (case v of None \<Rightarrow> 0 | Some x \<Rightarrow> x)"

text \<open>
  \<^verbatim>\<open>for (i = a; i < n; i += d) body\<close> with the loop state passed through \<open>body\<close>.
  Every loop of the source that is modelled with it has a literal step \<open>d\<close> of 1, 4 or
  16; the guard \<open>0 < d\<close> only makes the definition total.
\<close>

function for_loop :: "nat \<Rightarrow> nat \<Rightarrow> nat \<Rightarrow> (nat \<Rightarrow> 's \<Rightarrow> 's) \<Rightarrow> 's \<Rightarrow> 's" where
  "for_loop i n d body s =
     (if i < n \<and> 0 < d then for_loop (i + d) n d body (body i s) else s)"
  by pat_completeness auto
termination
  by (relation "measure (\<lambda>(i, n, d, body, s). n - i)") auto

declare for_loop.simps [simp del]

section \<open>CoordMath\<close>

text \<open>
  \<^verbatim>\<open>BITS.c_MercXZtoMercXZ = function(x, z, dest_z)
  { return dest_z > z ? x << (dest_z - z) : x >>> (z - dest_z); }\<close>
\<close>

definition c_MercXZtoMercXZ :: "int \<Rightarrow> int \<Rightarrow> int \<Rightarrow> int" where
  "c_MercXZtoMercXZ x z dest_z =
     (if dest_z > z then js_shl x (dest_z - z) else js_shr_u x (z - dest_z))"

text \<open>\<^verbatim>\<open>LBITS.GetWorldSizeTiles = function(z) { return 1 << z; }\<close>\<close>

definition GetWorldSizeTiles :: "int \<Rightarrow> int" where
  "GetWorldSizeTiles z = js_shl 1 z"

text \<open>
  \<^verbatim>\<open>var z, max_single_index_z = 0;
  for (z = 21; z >= 0; z--)
      if (LBITS.GetWorldSizeTiles(z) <= tile_px) { max_single_index_z = z; break; }
  return max_single_index_z;\<close>
  \<open>zoom_scan z\<close> is the loop from counter \<open>z\<close> downwards; at \<open>z = 0\<close> both outcomes
  of the test leave \<open>max_single_index_z = 0\<close>.
\<close>

fun zoom_scan :: "nat \<Rightarrow> int \<Rightarrow> int" where
  "zoom_scan 0 tile_px = 0"
| "zoom_scan (Suc z) tile_px =
     (if GetWorldSizeTiles (int (Suc z)) \<le> tile_px then int (Suc z) else zoom_scan z tile_px)"

definition GetMaxZoomLevelSingleIndexForTilePx :: "int \<Rightarrow> int" where
  "GetMaxZoomLevelSingleIndexForTilePx tile_px = zoom_scan 21 tile_px"

definition GetMaxZoomLevelSingleIndexForTileWidthHeightPx :: "int \<Rightarrow> int \<Rightarrow> int" where
  "GetMaxZoomLevelSingleIndexForTileWidthHeightPx tile_w tile_h =
     (let max_w = GetMaxZoomLevelSingleIndexForTilePx tile_w;
          max_h = GetMaxZoomLevelSingleIndexForTilePx tile_h
      in min max_w max_h)"

section \<open>Sparse index/value form of a bitmap\<close>

text \<open>
  \<^verbatim>\<open>dest_u16[srci_u16[i]] = srcv_u16[i];\<close>
  When \<open>srci_u16[i]\<close> is \<open>undefined\<close> no element of \<open>dest_u16\<close> is written.
\<close>

definition ivtovec_store :: "u16 list \<Rightarrow> u16 list \<Rightarrow> u16 list \<Rightarrow> nat \<Rightarrow> u16 list" where
  "ivtovec_store dest_u16 srci_u16 srcv_u16 i =
     (case ta_get srci_u16 i of
        None \<Rightarrow> dest_u16
      | Some k \<Rightarrow> dest_u16[unat k := or_zero (ta_get srcv_u16 i)])"

text \<open>
  \<^verbatim>\<open>LBITS.ivtovec_u16 = function(dest_u16, srci_u16, srcv_u16)
  {
      var i;
      var src_n = srci_u16.length >>> 0;
      var max_i = src_n - (src_n % 4);
      for (i = 0; i < max_i; i += 4)
      {
          dest_u16[srci_u16[i  ]] = srcv_u16[i  ];
          dest_u16[srci_u16[i+1]] = srcv_u16[i+1];
          dest_u16[srci_u16[i+2]] = srcv_u16[i+2];
          dest_u16[srci_u16[i+3]] = srcv_u16[i+3];
      }
      for (i = max_i; i < max_i + src_n % 4; i++)
          dest_u16[srci_u16[i]] = srcv_u16[i];
  };\<close>
\<close>

definition ivtovec_u16 :: "u16 list \<Rightarrow> u16 list \<Rightarrow> u16 list \<Rightarrow> u16 list" where
  "ivtovec_u16 dest_u16 srci_u16 srcv_u16 =
     (let src_n = length srci_u16;
          max_i = src_n - src_n mod 4;
          dest1 = for_loop 0 max_i 4
                    (\<lambda>i dest.
                       ivtovec_store
                         (ivtovec_store
                            (ivtovec_store
                               (ivtovec_store dest srci_u16 srcv_u16 i)
                               srci_u16 srcv_u16 (i + 1))
                            srci_u16 srcv_u16 (i + 2))
                         srci_u16 srcv_u16 (i + 3))
                    dest_u16
      in for_loop max_i (max_i + src_n mod 4) 1
           (\<lambda>i dest. ivtovec_store dest srci_u16 srcv_u16 i) dest1)"

text \<open>
  The naive sequential loop the unrolled one is compared with:
  \<^verbatim>\<open>for (i = 0; i < n; i++) dest[srci[i]] = srcv[i];\<close>
\<close>

definition naive_ivtovec :: "u16 list \<Rightarrow> u16 list \<Rightarrow> u16 list \<Rightarrow> nat \<Rightarrow> u16 list" where
  "naive_ivtovec dest srci srcv n =
     fold (\<lambda>i d. d[unat (srci ! i) := srcv ! i]) [0..<n] dest"

text \<open>\<^verbatim>\<open>var dest_u16 = new Uint16Array(n); LBITS.ivtovec_u16(dest_u16, srci_u16, srcv_u16);\<close>\<close>

definition new_ivtovec_u16 :: "u16 list \<Rightarrow> u16 list \<Rightarrow> nat \<Rightarrow> u16 list" where
  "new_ivtovec_u16 srci_u16 srcv_u16 n = ivtovec_u16 (replicate n 0) srci_u16 srcv_u16"

text \<open>
  A JavaScript string is a sequence of 16-bit code units: \<open>String.fromCharCode(c)\<close> is
  the one-unit string of \<open>c mod 2 ^ 16\<close>.
  \<^verbatim>\<open>BITS.c_DecomposeIndexIntoIV = function(src_u16)
  {
      if (src_u16 == null) return null;
      var dest_i_str = "", dest_v_str = "";
      for (var i = 0; i < src_u16.length; i++)
          if (src_u16[i] != 0)
          {
              dest_i_str += String.fromCharCode(i);
              dest_v_str += String.fromCharCode(src_u16[i]);
          }
      return [dest_i_str, dest_v_str];
  };\<close>
\<close>

definition c_DecomposeIndexIntoIV :: "u16 list option \<Rightarrow> (u16 list \<times> u16 list) option" where
  "c_DecomposeIndexIntoIV src =
     (case src of
        None \<Rightarrow> None
      | Some src_u16 \<Rightarrow>
          Some (for_loop 0 (length src_u16) 1
                  (\<lambda>i (dest_i_str, dest_v_str).
                     if src_u16 ! i \<noteq> 0
                     then (dest_i_str @ [word_of_nat i], dest_v_str @ [src_u16 ! i])
                     else (dest_i_str, dest_v_str))
                  ([], [])))"

text \<open>
  \<^verbatim>\<open>LBITS.DecodeBitmapIndexFromBinaryString = function(src_iv_str, w, h)
  {
      var n = src_iv_str.length >>> 1;
      var dest_n = (w >>> 2) * (h >>> 2);
      i_u16 = new Uint16Array(n);
      v_u16 = new Uint16Array(n);
      for (i = 0; i < n; i++)                 i_u16[i]   = src_iv_str.charCodeAt(i);
      for (i = n; i < src_iv_str.length; i++) v_u16[i-n] = src_iv_str.charCodeAt(i);
      return LBITS.new_ivtovec_u16(i_u16, v_u16, dest_n);
  };\<close>
  The tile width and height are numbers below \<open>2 ^ 32\<close>, so \<open>w >>> 2\<close> is \<open>w div 4\<close>.
\<close>

definition DecodeBitmapIndexFromBinaryString :: "u16 list \<Rightarrow> nat \<Rightarrow> nat \<Rightarrow> u16 list" where
  "DecodeBitmapIndexFromBinaryString src_iv_str w h =
     (let n = length src_iv_str div 2;
          dest_n = (w div 4) * (h div 4);
          i_u16 = for_loop 0 n 1 (\<lambda>i a. a[i := src_iv_str ! i]) (replicate n 0);
          v_u16 = for_loop n (length src_iv_str) 1 (\<lambda>i a. a[i - n := src_iv_str ! i])
                    (replicate n 0)
      in new_ivtovec_u16 i_u16 v_u16 dest_n)"

section \<open>BitmapIndex: reading bits\<close>

datatype error = TypeError

text \<open>
  A typed array indexed by a number that need not be a valid index, and by a value that
  may be \<open>undefined\<close> (\<open>None\<close>; arithmetic on \<open>undefined\<close> gives \<open>NaN\<close>, also
  \<open>None\<close>).  Reading at such an index yields \<open>undefined\<close>, storing there changes no
  element.
\<close>

definition ta_get_int :: "'a list \<Rightarrow> int \<Rightarrow> 'a option" where
  "ta_get_int a i = (if 0 \<le> i \<and> i < int (length a) then Some (a ! nat i) else None)"

definition ta_get_at :: "'a list \<Rightarrow> nat option \<Rightarrow> 'a option" where
  "ta_get_at a k = (case k of None \<Rightarrow> None | Some i \<Rightarrow> ta_get a i)"

definition ta_set_at :: "'a list \<Rightarrow> nat option \<Rightarrow> 'a \<Rightarrow> 'a list" where
  "ta_set_at a k v = (case k of None \<Rightarrow> a | Some i \<Rightarrow> a[i := v])"

text \<open>
  \<open>a & b\<close> on two numbers; an \<open>undefined\<close> operand counts as 0.  Comparisons of an
  array element with a number; a comparison with \<open>undefined\<close> is false.
\<close>

definition js_and :: "int \<Rightarrow> int \<Rightarrow> int" where
  "js_and a b = ToInt32 a AND ToInt32 b"

definition js_gt :: "'a::len word option \<Rightarrow> int \<Rightarrow> bool" where
  "js_gt v t = (case v of None \<Rightarrow> False | Some b \<Rightarrow> uint b > t)"

definition js_le :: "'a::len word option \<Rightarrow> int \<Rightarrow> bool" where
  "js_le v t = (case v of None \<Rightarrow> False | Some b \<Rightarrow> uint b \<le> t)"

definition js_ge :: "'a::len word option \<Rightarrow> int \<Rightarrow> bool" where
  "js_ge v t = (case v of None \<Rightarrow> False | Some b \<Rightarrow> uint b \<ge> t)"

text \<open>
  \<^verbatim>\<open>BITS.c_GetBitReusingIdx = function(src_u16, idx, x, y)
  {
      var xc    =  x - ( (x>>>2) << 2);
      var yc    = (y - ( (y>>>2) << 2)) << 2;
      var bit   = 1 << (yc + xc);
      return (src_u16[idx] & bit) != 0;
  };\<close>
\<close>

definition c_GetBitReusingIdx :: "u16 list \<Rightarrow> int \<Rightarrow> int \<Rightarrow> int \<Rightarrow> bool" where
  "c_GetBitReusingIdx src_u16 idx x y =
     (let xc = x - js_shl (js_shr_u x 2) 2;
          yc = js_shl (y - js_shl (js_shr_u y 2) 2) 2;
          bit = js_shl 1 (yc + xc)
      in js_and (case ta_get_int src_u16 idx of None \<Rightarrow> 0 | Some c \<Rightarrow> uint c) bit \<noteq> 0)"

text \<open>
  \<^verbatim>\<open>BITS.c_GetBit = function(src_u16, x, y, w, h)
  {
      var bit_w = w >>> 2;
      var idx   = (y >>> 2) * bit_w + (x >>> 2);
      return BITS.c_GetBitReusingIdx(src_u16, idx, x, y);
  };\<close>
  The tile width \<open>w\<close> is a natural number below \<open>2 ^ 32\<close>.
\<close>

definition c_GetBit :: "u16 list \<Rightarrow> int \<Rightarrow> int \<Rightarrow> nat \<Rightarrow> nat \<Rightarrow> bool" where
  "c_GetBit src_u16 x y w h =
     (let bit_w = int (w div 4);
          idx = js_shr_u y 2 * bit_w + js_shr_u x 2
      in c_GetBitReusingIdx src_u16 idx x y)"

section \<open>BitmapIndex: building the bitmap from a raster\<close>

text \<open>
  \<^verbatim>\<open>BITS.GetRGBAOffsetsForAlphaOffset = function(ch_offset)
  {
           if (ch_offset == 0) return [1,2,3,0];
      else if (ch_offset == 1) return [2,3,0,1];
      else if (ch_offset == 2) return [3,0,1,2];
      else                     return [0,1,2,3];
  };\<close>
\<close>

definition GetRGBAOffsetsForAlphaOffset :: "nat \<Rightarrow> nat list" where
  "GetRGBAOffsetsForAlphaOffset ch_offset =
     (if ch_offset = 0 then [1, 2, 3, 0]
      else if ch_offset = 1 then [2, 3, 0, 1]
      else if ch_offset = 2 then [3, 0, 1, 2]
      else [0, 1, 2, 3])"

text \<open>
  The recovery passes are only called on a raster that is not \<open>null\<close>; each takes the
  raster (or the working buffer \<open>dest\<close>) and returns it as it has been mutated.
  \<^verbatim>\<open>BITS.RecoverShadowAlphaInRGBA8888Tile = function(src, ch_offset, alpha_threshold, unshd_threshold, w, h)
  {
      if (src != null)
      {
          var rgbac = BITS.GetRGBAOffsetsForAlphaOffset(ch_offset);
          var ac = ch_offset;
          var rc = rgbac[0];
          var gc = rgbac[1];
          var bc = rgbac[2];
          alpha_threshold--;
          var x, y_width, y_width_x;
          var bpr = w * 4;
          for (var y = 0; y < h; y++)
          {
              y_width = y * bpr;
              for (x = 0; x < bpr; x+=4)
              {
                  y_width_x = y_width + x;
                  if (src[y_width_x + ac]  > alpha_threshold
                   && src[y_width_x + rc] <= unshd_threshold
                   && src[y_width_x + gc] <= unshd_threshold
                   && src[y_width_x + bc] <= unshd_threshold)
                  {
                      src[y_width_x + ac] = 0;
                  }
              }
          }
      }
  };\<close>
\<close>

definition RecoverShadowAlphaInRGBA8888Tile ::
  "u8 list \<Rightarrow> nat \<Rightarrow> int \<Rightarrow> int \<Rightarrow> nat \<Rightarrow> nat \<Rightarrow> u8 list" where
  "RecoverShadowAlphaInRGBA8888Tile src0 ch_offset alpha_threshold0 unshd_threshold w h =
     (let rgbac = GetRGBAOffsetsForAlphaOffset ch_offset;
          ac = ch_offset;
          rc = rgbac ! 0;
          gc = rgbac ! 1;
          bc = rgbac ! 2;
          alpha_threshold = alpha_threshold0 - 1;
          bpr = w * 4
      in for_loop 0 h 1
           (\<lambda>y src.
              let y_width = y * bpr
              in for_loop 0 bpr 4
                   (\<lambda>x src.
                      let y_width_x = y_width + x
                      in if js_gt (ta_get src (y_width_x + ac)) alpha_threshold
                            \<and> js_le (ta_get src (y_width_x + rc)) unshd_threshold
                            \<and> js_le (ta_get src (y_width_x + gc)) unshd_threshold
                            \<and> js_le (ta_get src (y_width_x + bc)) unshd_threshold
                         then src[y_width_x + ac := 0]
                         else src)
                   src)
           src0)"

text \<open>
  \<^verbatim>\<open>BITS.RecoverXStrokeInRGBA8888Tile = function(dest, src, ch_offset, alpha_threshold, w, h)
  {
      if (src != null)
      {
          var rgbac = BITS.GetRGBAOffsetsForAlphaOffset(ch_offset);
          var ac = ch_offset;
          ...
          alpha_threshold--;
          var x, y_width, y_width_x;
          var bpr = w * 4;
          for (var y = 0; y < h; y++)
          {
              y_width = y * bpr;
              for (x = 4; x < bpr - 4; x+=4)
              {
                  if (   src[ y_width_x      + ac]  > alpha_threshold
                      && src[(y_width_x - 4) + ac]  > alpha_threshold
                      && src[(y_width_x + 4) + ac] <= alpha_threshold)
                  {
                        dest[ y_width_x      + ac] = 0;
                  }
              }
          }
      }
  };\<close>
  The variable \<open>y_width_x\<close> is declared and never assigned in this function: it is
  \<open>undefined\<close> throughout, and every index computed from it is \<open>NaN\<close>.  In all three
  stroke passes the bounds \<open>bpr - 4\<close> and \<open>h - 1\<close> are at most 0 exactly when
  truncated subtraction on \<open>nat\<close> gives 0, and the subtractions inside the loops are
  never truncated.
\<close>

definition RecoverXStrokeInRGBA8888Tile ::
  "u8 list \<Rightarrow> u8 list \<Rightarrow> nat \<Rightarrow> int \<Rightarrow> nat \<Rightarrow> nat \<Rightarrow> u8 list" where
  "RecoverXStrokeInRGBA8888Tile dest0 src ch_offset alpha_threshold0 w h =
     (let ac = ch_offset;
          alpha_threshold = alpha_threshold0 - 1;
          y_width_x = (None :: nat option);
          bpr = w * 4
      in for_loop 0 h 1
           (\<lambda>y dest.
              let y_width = y * bpr
              in for_loop 4 (bpr - 4) 4
                   (\<lambda>x dest.
                      if js_gt (ta_get_at src (map_option (\<lambda>k. k + ac) y_width_x))
                             alpha_threshold
                         \<and> js_gt (ta_get_at src (map_option (\<lambda>k. (k - 4) + ac) y_width_x))
                              alpha_threshold
                         \<and> js_le (ta_get_at src (map_option (\<lambda>k. (k + 4) + ac) y_width_x))
                              alpha_threshold
                      then ta_set_at dest (map_option (\<lambda>k. k + ac) y_width_x) 0
                      else dest)
                   dest)
           dest0)"

text \<open>
  \<^verbatim>\<open>BITS.RecoverYStrokeInRGBA8888Tile = function(dest, src, ch_offset, alpha_threshold, w, h)
  {
      if (src != null)
      {
          ...
          alpha_threshold--;
          var bpr = w * 4;
          for (var y = 1; y < h - 1; y++)
              for (x = 0; x < bpr; x+=4)
                  if (   src[ y   *bpr + x + ac] >  alpha_threshold
                      && src[(y-1)*bpr + x + ac] >  alpha_threshold
                      && src[(y+1)*bpr + x + ac] <= alpha_threshold)
                        dest[ y   *bpr + x + ac] = 0;
      }
  };\<close>
\<close>

definition RecoverYStrokeInRGBA8888Tile ::
  "u8 list \<Rightarrow> u8 list \<Rightarrow> nat \<Rightarrow> int \<Rightarrow> nat \<Rightarrow> nat \<Rightarrow> u8 list" where
  "RecoverYStrokeInRGBA8888Tile dest0 src ch_offset alpha_threshold0 w h =
     (let ac = ch_offset;
          alpha_threshold = alpha_threshold0 - 1;
          bpr = w * 4
      in for_loop 1 (h - 1) 1
           (\<lambda>y dest.
              for_loop 0 bpr 4
                (\<lambda>x dest.
                   if js_gt (ta_get src (y * bpr + x + ac)) alpha_threshold
                      \<and> js_gt (ta_get src ((y - 1) * bpr + x + ac)) alpha_threshold
                      \<and> js_le (ta_get src ((y + 1) * bpr + x + ac)) alpha_threshold
                   then dest[y * bpr + x + ac := 0]
                   else dest)
                dest)
           dest0)"

text \<open>
  \<^verbatim>\<open>BITS.RecoverDStrokeInRGBA8888Tile = function(dest, src, ch_offset, alpha_threshold, w, h)
  {
      if (src != null)
      {
          ...
          alpha_threshold--;
          var bpr = w * 4;
          for (var y = 1; y < h - 1; y++)
              for (x = 4; x < bpr - 4; x+=4)
                  if (   src[ y   *bpr + x   + ac] >  alpha_threshold
                      && src[(y-1)*bpr + x-4 + ac] >  alpha_threshold
                      && src[(y+1)*bpr + x+4 + ac] <= alpha_threshold)
                        dest[ y   *bpr + x   + ac]  = 0;
      }
  };\<close>
\<close>

definition RecoverDStrokeInRGBA8888Tile ::
  "u8 list \<Rightarrow> u8 list \<Rightarrow> nat \<Rightarrow> int \<Rightarrow> nat \<Rightarrow> nat \<Rightarrow> u8 list" where
  "RecoverDStrokeInRGBA8888Tile dest0 src ch_offset alpha_threshold0 w h =
     (let ac = ch_offset;
          alpha_threshold = alpha_threshold0 - 1;
          bpr = w * 4
      in for_loop 1 (h - 1) 1
           (\<lambda>y dest.
              for_loop 4 (bpr - 4) 4
                (\<lambda>x dest.
                   if js_gt (ta_get src (y * bpr + x + ac)) alpha_threshold
                      \<and> js_gt (ta_get src ((y - 1) * bpr + x - 4 + ac)) alpha_threshold
                      \<and> js_le (ta_get src ((y + 1) * bpr + x + 4 + ac)) alpha_threshold
                   then dest[y * bpr + x + ac := 0]
                   else dest)
                dest)
           dest0)"

text \<open>
  \<^verbatim>\<open>BITS.GetBitmapCellFromPlanarTile_u16 = function(src, x, y, offset, stride, threshold, w, h, bytes_per_row)
  {
      var cellValue = 0;
      if (src != null && src.length == bytes_per_row * h)
      {
          var bitX,bitY_width,idxCount=0;
          threshold--;
          for (var bitY = y; bitY < y + 4; bitY++)
          {
              bitY_width = bitY * w * stride;
              for (bitX = x; bitX < x + 4 * stride; bitX+=stride)
              {
                  if (src[bitY_width + bitX + offset] > threshold)
                      cellValue |= 1 << idxCount;
                  idxCount++;
              }
          }
          return cellValue;
      }
      else { ... console.log ... }
  };\<close>
  The loop state is \<open>(cellValue, idxCount)\<close>.  \<open>idxCount\<close> stays below 16, so
  \<open>cellValue\<close> is a 16-bit value; without the length match the function returns
  \<open>undefined\<close>.
\<close>

definition GetBitmapCellFromPlanarTile_u16 ::
  "u8 list \<Rightarrow> nat \<Rightarrow> nat \<Rightarrow> nat \<Rightarrow> nat \<Rightarrow> int \<Rightarrow> nat \<Rightarrow> nat \<Rightarrow> nat \<Rightarrow> u16 option" where
  "GetBitmapCellFromPlanarTile_u16 src x y offset stride threshold0 w h bytes_per_row =
     (if length src = bytes_per_row * h
      then
        let threshold = threshold0 - 1
        in Some (fst (for_loop y (y + 4) 1
             (\<lambda>bitY st.
                let bitY_width = bitY * w * stride
                in for_loop x (x + 4 * stride) stride
                     (\<lambda>bitX (cellValue, idxCount).
                        (if js_gt (ta_get src (bitY_width + bitX + offset)) threshold
                         then cellValue OR push_bit idxCount 1
                         else cellValue,
                         idxCount + 1))
                     st)
             (0, 0 :: nat)))
      else None)"

text \<open>
  \<^verbatim>\<open>BITS.GetBitmapFromRGBA8888Tile = function(src, unshadow, unstroke, ch_offset, alpha_threshold, unshd_threshold, w, h)
  {
      var dest = null;
      if (src != null && src.length == (w * h) << 2)
      {
          var bit_w = w >>> 2;
          var bit_h = h >>> 2;
          dest = new Uint16Array(bit_w * bit_h);
          if (unshadow)
              BITS.RecoverShadowAlphaInRGBA8888Tile(src, ch_offset, alpha_threshold, unshd_threshold, w, h);
          if (unstroke)
          {
              var backup = new Uint8Array(src);
              BITS.RecoverDStrokeInRGBA8888Tile(src, backup, ch_offset, alpha_threshold, w, h);
              BITS.RecoverXStrokeInRGBA8888Tile(src, backup, ch_offset, alpha_threshold, w, h);
              BITS.RecoverYStrokeInRGBA8888Tile(src, backup, ch_offset, alpha_threshold, w, h);
              backup = null;
          }
          var x, bsX, bsY_bW = 0;
          var bpr = w * 4;
          for (var y = 0; y < h; y+=4)
          {
              bsX = 0;
              for (x = 0; x < bpr; x+=16)
              {
                  dest[bsY_bW+bsX] = BITS.GetBitmapCellFromPlanarTile_u16(src, x, y, ch_offset, 4, alpha_threshold, w, h, bpr);
                  bsX++;
              }
              bsY_bW += bit_w;
          }
      }
      else
      {
          if (src == null) console.log("BITS.GetBitmapFromRGBA8888Tile: ERR: src was NULL!");
          if (src.length != (w * h) << 2) console.log(...);
      }
      return dest;
  };\<close>
  The result is \<open>Inr None\<close> for \<open>null\<close> (no index built); a \<open>null\<close> raster throws at
  \<open>src.length\<close> in the \<open>else\<close> branch.  \<open>backup\<close> is a copy of the raster taken
  before the first stroke pass; the passes write into \<open>src\<close>.
\<close>

definition GetBitmapFromRGBA8888Tile ::
  "u8 list option \<Rightarrow> bool \<Rightarrow> bool \<Rightarrow> nat \<Rightarrow> int \<Rightarrow> int \<Rightarrow> nat \<Rightarrow> nat
   \<Rightarrow> error + u16 list option" where
  "GetBitmapFromRGBA8888Tile src_opt unshadow unstroke ch_offset alpha_threshold unshd_threshold w h =
     (case src_opt of
        None \<Rightarrow> Inl TypeError
      | Some src0 \<Rightarrow>
          if int (length src0) = js_shl (int (w * h)) 2
          then
            let bit_w = w div 4;
                bit_h = h div 4;
                dest0 = replicate (bit_w * bit_h) (0 :: u16);
                src1 = (if unshadow
                        then RecoverShadowAlphaInRGBA8888Tile src0 ch_offset alpha_threshold
                               unshd_threshold w h
                        else src0);
                src = (if unstroke
                       then
                         let backup = src1;
                             s1 = RecoverDStrokeInRGBA8888Tile src1 backup ch_offset alpha_threshold w h;
                             s2 = RecoverXStrokeInRGBA8888Tile s1 backup ch_offset alpha_threshold w h
                         in RecoverYStrokeInRGBA8888Tile s2 backup ch_offset alpha_threshold w h
                       else src1);
                bpr = w * 4
            in Inr (Some (fst (for_loop 0 h 4
                 (\<lambda>y (dest, bsY_bW).
                    (fst (for_loop 0 bpr 16
                            (\<lambda>x (dest, bsX).
                               (dest[bsY_bW + bsX :=
                                     or_zero (GetBitmapCellFromPlanarTile_u16 src x y ch_offset 4
                                                alpha_threshold w h bpr)],
                                bsX + 1))
                            (dest, 0 :: nat)),
                     bsY_bW + bit_w))
                 (dest0, 0 :: nat))))
          else Inr None)"

text \<open>
  The worked example of the README file ("For a 2x2 NODATA fill stroke which only moves
  +,+ when there is data"), placed in a tile 8 pixels wide and 4 high: the data pixel
  \<open>AA\<close> at (1, 1) and the fill \<open>FF\<close> at (2, 1), (1, 2) and (2, 2), every other pixel
  transparent.  Pixel \<open>(x, y)\<close> is number \<open>y * 8 + x\<close>; the alpha channel is byte 3.
\<close>

definition stroke_example :: "u8 list" where
  "stroke_example =
     concat (map (\<lambda>p. [0, 0, 0, if p = 9 \<or> p = 10 \<or> p = 17 \<or> p = 18 then 255 else 0])
               [0..<32])"

section \<open>Extent vectors\<close>

text \<open>
  Extent vectors are \<open>Uint32Array\<close>s: a stored number is reduced modulo \<open>2 ^ 32\<close>
  (\<open>word_of_int\<close>) and read back as an unsigned number (\<open>uint\<close>).  Two elements are
  compared as numbers; a comparison with \<open>undefined\<close> is false.
\<close>

definition u32_lt :: "u32 option \<Rightarrow> u32 option \<Rightarrow> bool" where
  "u32_lt a b = (case a of None \<Rightarrow> False | Some x \<Rightarrow> (case b of None \<Rightarrow> False | Some y \<Rightarrow> x < y))"

definition u32_gt :: "u32 option \<Rightarrow> u32 option \<Rightarrow> bool" where
  "u32_gt a b = (case a of None \<Rightarrow> False | Some x \<Rightarrow> (case b of None \<Rightarrow> False | Some y \<Rightarrow> x > y))"

definition u32_ge :: "u32 option \<Rightarrow> u32 option \<Rightarrow> bool" where
  "u32_ge a b = (case a of None \<Rightarrow> False | Some x \<Rightarrow> (case b of None \<Rightarrow> False | Some y \<Rightarrow> x \<ge> y))"

text \<open>\<^verbatim>\<open>BITS.c_GetDefaultExtentZoomLevel = function() { return 21; };\<close>\<close>

definition c_GetDefaultExtentZoomLevel :: int where
  "c_GetDefaultExtentZoomLevel = 21"

text \<open>
  \<^verbatim>\<open>BITS.c_vMercXYZtoMercXYZ_u32 = function(v)
  {
      if (v[4] > v[5])
      {
          v[0] = v[0] << (v[4] - v[5]);  v[1] = v[1] << (v[4] - v[5]);
          v[2] = v[2] << (v[4] - v[5]);  v[3] = v[3] << (v[4] - v[5]);
      }
      else
      {
          v[0] = v[0] >>> (v[5] - v[4]); v[1] = v[1] >>> (v[5] - v[4]);
          v[2] = v[2] >>> (v[5] - v[4]); v[3] = v[3] >>> (v[5] - v[4]);
      }
  };\<close>
  Only called on vectors of at least 7 elements.
\<close>

definition c_vMercXYZtoMercXYZ_u32 :: "u32 list \<Rightarrow> u32 list" where
  "c_vMercXYZtoMercXYZ_u32 v =
     (if v ! 4 > v ! 5
      then
        let n = uint (v ! 4) - uint (v ! 5);
            v = v[0 := word_of_int (js_shl (uint (v ! 0)) n)];
            v = v[1 := word_of_int (js_shl (uint (v ! 1)) n)];
            v = v[2 := word_of_int (js_shl (uint (v ! 2)) n)]
        in v[3 := word_of_int (js_shl (uint (v ! 3)) n)]
      else
        let n = uint (v ! 5) - uint (v ! 4);
            v = v[0 := word_of_int (js_shr_u (uint (v ! 0)) n)];
            v = v[1 := word_of_int (js_shr_u (uint (v ! 1)) n)];
            v = v[2 := word_of_int (js_shr_u (uint (v ! 2)) n)]
        in v[3 := word_of_int (js_shr_u (uint (v ! 3)) n)])"

text \<open>
  \<^verbatim>\<open>BITS.c_SetPxExtentVector_u32 = function(v, x, y, z, dest_z, w, h)
  {
      v[0] = x * w;
      v[1] = y * h;
      v[4] = dest_z;
      v[5] = z;
      v[2] = w;                                                    // width
      v[2] = BITS.c_MercXZtoMercXZ(v[2], v[5], v[4]) - 1;          // -1 for 0-based index
      v[3] = v[2];                                                 // copy to height, same
      v[0] = BITS.c_MercXZtoMercXZ(v[0], v[5], v[4]);              // reproject origin x/y
      v[1] = BITS.c_MercXZtoMercXZ(v[1], v[5], v[4]);
      v[2] = v[2] + v[0];
      v[3] = v[3] + v[1];
  };
  BITS.c_GetNewPxExtentVector_u32 = function(x, y, z, dest_z, w, h)
  {
      var v = new Uint32Array(6);
      BITS.c_SetPxExtentVector_u32(v, x, y, z, dest_z, w, h);
      return v;
  };\<close>
  \<open>w\<close> and \<open>h\<close> are \<open>None\<close> when the caller omits them: they are then
  \<open>undefined\<close>, the products are \<open>NaN\<close>, and \<open>undefined\<close> and \<open>NaN\<close> are stored as 0.
  The vector has 6 elements, so every index used is in range.
\<close>

definition c_SetPxExtentVector_u32 ::
  "u32 list \<Rightarrow> int \<Rightarrow> int \<Rightarrow> int \<Rightarrow> int \<Rightarrow> int option \<Rightarrow> int option \<Rightarrow> u32 list" where
  "c_SetPxExtentVector_u32 v x y z dest_z w h =
     (let v = v[0 := (case w of None \<Rightarrow> 0 | Some w \<Rightarrow> word_of_int (x * w))];
          v = v[1 := (case h of None \<Rightarrow> 0 | Some h \<Rightarrow> word_of_int (y * h))];
          v = v[4 := word_of_int dest_z];
          v = v[5 := word_of_int z];
          v = v[2 := (case w of None \<Rightarrow> 0 | Some w \<Rightarrow> word_of_int w)];
          v = v[2 := word_of_int (c_MercXZtoMercXZ (uint (v ! 2)) (uint (v ! 5)) (uint (v ! 4)) - 1)];
          v = v[3 := v ! 2];
          v = v[0 := word_of_int (c_MercXZtoMercXZ (uint (v ! 0)) (uint (v ! 5)) (uint (v ! 4)))];
          v = v[1 := word_of_int (c_MercXZtoMercXZ (uint (v ! 1)) (uint (v ! 5)) (uint (v ! 4)))];
          v = v[2 := v ! 2 + v ! 0]
      in v[3 := v ! 3 + v ! 1])"

definition c_GetNewPxExtentVector_u32 ::
  "int \<Rightarrow> int \<Rightarrow> int \<Rightarrow> int \<Rightarrow> int option \<Rightarrow> int option \<Rightarrow> u32 list" where
  "c_GetNewPxExtentVector_u32 x y z dest_z w h =
     c_SetPxExtentVector_u32 (replicate 6 0) x y z dest_z w h"

text \<open>
  \<^verbatim>\<open>BITS.c_vPixelExtentToMercExtent_u32 = function(v, w, h)
  {
      if (v == null || v.length < 7) { ...; return; }
      var dest_z = BITS.c_GetDefaultExtentZoomLevel();
      v[0] += v[6] * w;  // offset by tile x/y in pixels at original zoom level
      v[1] += v[7] * h;
      v[2] += v[6] * w;
      v[3] += v[7] * h;
      v[4]  = dest_z;     // set the destination zoom level for the reprojection
      BITS.c_vMercXYZtoMercXYZ_u32(v); // reproject
  };\<close>
  The vector is never \<open>null\<close> here.  With exactly 7 elements \<open>v[7]\<close> is \<open>undefined\<close>
  and the sums with it are \<open>NaN\<close>, stored as 0.  The tile width and height are natural
  numbers below \<open>2 ^ 21\<close>, so the sums are exact and their reduction modulo \<open>2 ^ 32\<close>
  is word arithmetic.
\<close>

definition c_vPixelExtentToMercExtent_u32 :: "u32 list \<Rightarrow> nat \<Rightarrow> nat \<Rightarrow> u32 list" where
  "c_vPixelExtentToMercExtent_u32 v w h =
     (if length v < 7 then v
      else
        let dest_z = c_GetDefaultExtentZoomLevel;
            v = v[0 := v ! 0 + v ! 6 * of_nat w];
            v = v[1 := (case ta_get v 7 of None \<Rightarrow> 0 | Some t \<Rightarrow> v ! 1 + t * of_nat h)];
            v = v[2 := v ! 2 + v ! 6 * of_nat w];
            v = v[3 := (case ta_get v 7 of None \<Rightarrow> 0 | Some t \<Rightarrow> v ! 3 + t * of_nat h)];
            v = v[4 := word_of_int dest_z]
        in c_vMercXYZtoMercXYZ_u32 v)"

section \<open>BitmapIndex (BITS)\<close>

text \<open>
  The fields of a \<open>BITS\<close> object that the modelled methods use; \<open>bs_\<close> is prefixed
  to the source's field names.  \<open>_defExZ\<close> is the constant 21.
\<close>

record BITS =
  bs_layerId :: int
  bs_x :: int
  bs_y :: int
  bs_z :: int
  bs_data :: "u16 list option"
  bs_isReady :: bool
  bs_tempData :: "u8 list option"
  bs_needProc :: bool
  bs_needGet :: bool
  bs_getting :: bool
  bs_extent :: "u32 list"
  bs_img_fx_unshadow :: bool
  bs_img_fx_unstroke :: bool
  bs_img_ch_offset :: nat
  bs_img_alpha_threshold :: int
  bs_img_unshd_threshold :: int
  bs_img_width :: nat
  bs_img_height :: nat

text \<open>
  \<^verbatim>\<open>function BITS(layerId, x, y, z, w, h, data, isReady)
  {
      this.layerId  = layerId;  this.x = x;  this.y = y;  this.z = z;
      this.data     = data;
      this.isReady  = data != null || isReady;
      this.tempData = null;
      this.needProc = false;  this.needGet = false;  this.getting = false;
      this._defExZ  = BITS.c_GetDefaultExtentZoomLevel();
      this.extent   = null;
      this.img_fx_unshadow = false;  this.img_fx_unstroke = false;
      this.img_ch_offset = 3;  this.img_alpha_threshold = 1;  this.img_unshd_threshold = 1;
      this.img_width = w;  this.img_height = h;
      this.UpdateExtent();
  }
  BITS.prototype.UpdateExtent = function()
  {
      if (this.extent == null)
          this.extent = BITS.c_GetNewPxExtentVector_u32(this.x, this.y, this.z, this._defExZ, this.img_width, this.img_height);
      else ...
      this.extent[2] += 1;
      this.extent[3] += 1; // compatibility with bad extent in iOS/OSX app (whoops)
  };\<close>
\<close>

definition UpdateExtent :: "int \<Rightarrow> int \<Rightarrow> int \<Rightarrow> nat \<Rightarrow> nat \<Rightarrow> u32 list" where
  "UpdateExtent x y z w h =
     (let extent = c_GetNewPxExtentVector_u32 x y z c_GetDefaultExtentZoomLevel
                     (Some (int w)) (Some (int h));
          extent = extent[2 := extent ! 2 + 1]
      in extent[3 := extent ! 3 + 1])"

definition new_BITS ::
  "int \<Rightarrow> int \<Rightarrow> int \<Rightarrow> int \<Rightarrow> nat \<Rightarrow> nat \<Rightarrow> u16 list option \<Rightarrow> bool \<Rightarrow> BITS" where
  "new_BITS layerId x y z w h data isReady =
     \<lparr> bs_layerId = layerId, bs_x = x, bs_y = y, bs_z = z,
       bs_data = data,
       bs_isReady = (data \<noteq> None \<or> isReady),
       bs_tempData = None,
       bs_needProc = False, bs_needGet = False, bs_getting = False,
       bs_extent = UpdateExtent x y z w h,
       bs_img_fx_unshadow = False, bs_img_fx_unstroke = False,
       bs_img_ch_offset = 3, bs_img_alpha_threshold = 1, bs_img_unshd_threshold = 1,
       bs_img_width = w, bs_img_height = h \<rparr>"

text \<open>
  \<^verbatim>\<open>BITS.prototype.CanIndexTile = function(x, y, z, extent_u32)
  {
      if (extent_u32 == null) extent_u32 = BITS.c_GetNewPxExtentVector_u32(x, y, z, this._defExZ);
      return !(   extent_u32[2] < this.extent[0] || extent_u32[0] >= this.extent[2]
               || extent_u32[3] < this.extent[1] || extent_u32[1] >= this.extent[3]);
  };\<close>
  The call that computes a missing extent passes no width and height.
\<close>

definition CanIndexTile :: "BITS \<Rightarrow> int \<Rightarrow> int \<Rightarrow> int \<Rightarrow> u32 list option \<Rightarrow> bool" where
  "CanIndexTile bs x y z extent_u32_opt =
     (let extent_u32 = (case extent_u32_opt of
                          None \<Rightarrow> c_GetNewPxExtentVector_u32 x y z c_GetDefaultExtentZoomLevel
                                    None None
                        | Some e \<Rightarrow> e)
      in \<not> (u32_lt (ta_get extent_u32 2) (ta_get (bs_extent bs) 0)
            \<or> u32_ge (ta_get extent_u32 0) (ta_get (bs_extent bs) 2)
            \<or> u32_lt (ta_get extent_u32 3) (ta_get (bs_extent bs) 1)
            \<or> u32_ge (ta_get extent_u32 1) (ta_get (bs_extent bs) 3)))"

text \<open>
  The bit test that \<open>DoesTileIntersectData\<close> and \<open>c_GetPixelExtentFromBitstore\<close> have
  inlined:
  \<^verbatim>\<open>yrsw = (bitY >>> 2) * bit_w;
  yrem = (bitY - ( (bitY>>>2) << 2)) << 2;
  bitIdx = yrsw + (bitX >>> 2);
  (this.data[bitIdx] & (1 << (yrem + bitX - ((bitX >>> 2) << 2) ))) != 0\<close>
\<close>

definition inlined_bit_test :: "u16 list \<Rightarrow> int \<Rightarrow> int \<Rightarrow> int \<Rightarrow> bool" where
  "inlined_bit_test data bit_w bitX bitY =
     (let yrsw = js_shr_u bitY 2 * bit_w;
          yrem = js_shl (bitY - js_shl (js_shr_u bitY 2) 2) 2;
          bitIdx = yrsw + js_shr_u bitX 2
      in js_and (case ta_get_int data bitIdx of None \<Rightarrow> 0 | Some c \<Rightarrow> uint c)
           (js_shl 1 (yrem + bitX - js_shl (js_shr_u bitX 2) 2)) \<noteq> 0)"

text \<open>
  \<^verbatim>\<open>BITS.prototype.DoesTileIntersectData = function(x, y, z)
  {
      var retVal = false;
      var px0 = BITS.c_MercXZtoMercXZ(x * this.img_width,                        z, this.z) - this.x * this.img_width;
      var py0 = BITS.c_MercXZtoMercXZ(y * this.img_height,                       z, this.z) - this.y * this.img_height;
      var px1 = BITS.c_MercXZtoMercXZ(x * this.img_width  + this.img_width  - 1, z, this.z) - this.x * this.img_width;
      var py1 = BITS.c_MercXZtoMercXZ(y * this.img_height + this.img_height - 1, z, this.z) - this.y * this.img_height;
      var bit_w = this.img_width >>> 2, yrem, yrsw, bitIdx;
      for (var bitY = py0; bitY <= py1; bitY++)
      {
          ...
          for (bitX = px0; bitX <= px1; bitX++)
          {
              ...
              if ((this.data[bitIdx] & (1 << ...)) != 0) { retVal = true; break; }
          }
          if (retVal) break;
      }
      return retVal;
  };\<close>
  The two loops with their \<open>break\<close>s return whether some pixel of the rectangle has its
  bit set.  When \<open>this.data\<close> is \<open>null\<close> the first evaluation of \<open>this.data[bitIdx]\<close>
  throws a TypeError; it is reached when the rectangle is not empty.
\<close>

definition DoesTileIntersectData :: "BITS \<Rightarrow> int \<Rightarrow> int \<Rightarrow> int \<Rightarrow> error + bool" where
  "DoesTileIntersectData bs x y z =
     (let w = int (bs_img_width bs);
          h = int (bs_img_height bs);
          px0 = c_MercXZtoMercXZ (x * w) z (bs_z bs) - bs_x bs * w;
          py0 = c_MercXZtoMercXZ (y * h) z (bs_z bs) - bs_y bs * h;
          px1 = c_MercXZtoMercXZ (x * w + w - 1) z (bs_z bs) - bs_x bs * w;
          py1 = c_MercXZtoMercXZ (y * h + h - 1) z (bs_z bs) - bs_y bs * h;
          bit_w = int (bs_img_width bs div 4)
      in case bs_data bs of
           None \<Rightarrow> if py0 \<le> py1 \<and> px0 \<le> px1 then Inl TypeError else Inr False
         | Some data \<Rightarrow>
             Inr (list_ex (\<lambda>bitY. list_ex (\<lambda>bitX. inlined_bit_test data bit_w bitX bitY)
                                     [px0..px1])
                    [py0..py1]))"

text \<open>
  \<^verbatim>\<open>BITS.prototype.SetBitmapFromRGBA8888Tile = function(src, unshadow, unstroke, ch_offset, alpha_threshold, unshd_threshold)
  {
      this.data = BITS.GetBitmapFromRGBA8888Tile(src, unshadow, unstroke, ch_offset, alpha_threshold, unshd_threshold, this.img_width, this.img_height);
  };\<close>
\<close>

definition SetBitmapFromRGBA8888Tile ::
  "BITS \<Rightarrow> u8 list option \<Rightarrow> bool \<Rightarrow> bool \<Rightarrow> nat \<Rightarrow> int \<Rightarrow> int \<Rightarrow> error + BITS" where
  "SetBitmapFromRGBA8888Tile bs src unshadow unstroke ch_offset alpha_threshold unshd_threshold =
     (case GetBitmapFromRGBA8888Tile src unshadow unstroke ch_offset alpha_threshold
             unshd_threshold (bs_img_width bs) (bs_img_height bs) of
        Inl e \<Rightarrow> Inl e
      | Inr d \<Rightarrow> Inr (bs\<lparr>bs_data := d\<rparr>))"

text \<open>
  \<^verbatim>\<open>BITS.prototype.SetBitmapFromCachedRGBA8888 = function()
  {
      if (this.tempData != null)
          this.SetBitmapFromRGBA8888Tile(this.tempData, this.img_fx_unshadow, this.img_fx_unstroke, this.img_ch_offset, this.img_alpha_threshold, this.img_unshd_threshold);
  };
  BITS.prototype.FinishLazyLoad = function()
  {
      if (this.needProc)
      {
          this.needProc = false;
          this.SetBitmapFromCachedRGBA8888();
          this.tempData = null;
      }
  };\<close>
\<close>

definition SetBitmapFromCachedRGBA8888 :: "BITS \<Rightarrow> error + BITS" where
  "SetBitmapFromCachedRGBA8888 bs =
     (if bs_tempData bs \<noteq> None
      then SetBitmapFromRGBA8888Tile bs (bs_tempData bs) (bs_img_fx_unshadow bs)
             (bs_img_fx_unstroke bs) (bs_img_ch_offset bs) (bs_img_alpha_threshold bs)
             (bs_img_unshd_threshold bs)
      else Inr bs)"

definition FinishLazyLoad :: "BITS \<Rightarrow> error + BITS" where
  "FinishLazyLoad bs =
     (if bs_needProc bs
      then (case SetBitmapFromCachedRGBA8888 (bs\<lparr>bs_needProc := False\<rparr>) of
              Inl e \<Rightarrow> Inl e
            | Inr bs' \<Rightarrow> Inr (bs'\<lparr>bs_tempData := None\<rparr>))
      else Inr bs)"

text \<open>
  \<^verbatim>\<open>BITS.prototype.ShouldLoadTile = function(layerId, x, y, z, extent_u32)
  {
      var shouldLoad = true;
      if (    this.isReady
          && !this.needGet
          &&  this.layerId == layerId
          &&  this.z       <= z
          &&  this.CanIndexTile(x, y, z, extent_u32))
      {
          if (this.needProc) this.FinishLazyLoad();
          shouldLoad = this.DoesTileIntersectData(x, y, z);
      }
      return shouldLoad;
  };\<close>
  The result is the answer together with the object as the call leaves it.
\<close>

definition BITS_ShouldLoadTile ::
  "BITS \<Rightarrow> int \<Rightarrow> int \<Rightarrow> int \<Rightarrow> int \<Rightarrow> u32 list option \<Rightarrow> error + (bool \<times> BITS)" where
  "BITS_ShouldLoadTile bs layerId x y z extent_u32 =
     (if bs_isReady bs \<and> \<not> bs_needGet bs \<and> bs_layerId bs = layerId \<and> bs_z bs \<le> z
         \<and> CanIndexTile bs x y z extent_u32
      then
        (case (if bs_needProc bs then FinishLazyLoad bs else Inr bs) of
           Inl e \<Rightarrow> Inl e
         | Inr bs' \<Rightarrow>
             (case DoesTileIntersectData bs' x y z of
                Inl e \<Rightarrow> Inl e
              | Inr shouldLoad \<Rightarrow> Inr (shouldLoad, bs')))
      else Inr (True, bs))"

text \<open>
  \<^verbatim>\<open>BITS.c_GetPixelExtentFromBitstore = function(src_u16, tx, ty, z, w, h)
  {
      var bitIdx,x,y,dc=0,minX=32767,minY=32767,maxX=-32768,maxY=-32768;
      var bit_w = w >>> 2,yrsw,yrem;
      if (src_u16 != null && src_u16.length == (w >>> 2) * (h >>> 2))
          for (y = 0; y < h; y++)
              for (x = 0; x < w; x++)
                  if ((src_u16[bitIdx] & (1 << ...)) != 0)
                  {
                      if (y > maxY) maxY = y;
                      if (y < minY) minY = y;
                      if (x > maxX) maxX = x;
                      if (x < minX) minX = x;
                  }
      if (minX == 32767 && minY == 32767 && maxX == -32768 && maxY == -32768)
      { minX = 0; minY = 0; maxX = w; maxY = h; }
      var results = new Uint32Array(8);
      results[0] = minX; results[1] = minY; results[2] = maxX; results[3] = maxY;
      results[4] = z;    results[5] = z;    results[6] = tx;   results[7] = ty;
      return results;
  };\<close>
  The loop state is \<open>(minX, minY, maxX, maxY)\<close>.
\<close>

definition c_GetPixelExtentFromBitstore ::
  "u16 list option \<Rightarrow> int \<Rightarrow> int \<Rightarrow> int \<Rightarrow> nat \<Rightarrow> nat \<Rightarrow> u32 list" where
  "c_GetPixelExtentFromBitstore src tx ty z w h =
     (let bit_w = w div 4;
          scanned =
            (case src of
               None \<Rightarrow> (32767, 32767, - 32768, - 32768)
             | Some src_u16 \<Rightarrow>
                 if length src_u16 = (w div 4) * (h div 4)
                 then for_loop 0 h 1
                        (\<lambda>y. for_loop 0 w 1
                           (\<lambda>x (minX, minY, maxX, maxY).
                              if inlined_bit_test src_u16 (int bit_w) (int x) (int y)
                              then
                                let maxY = (if int y > maxY then int y else maxY);
                                    minY = (if int y < minY then int y else minY);
                                    maxX = (if int x > maxX then int x else maxX);
                                    minX = (if int x < minX then int x else minX)
                                in (minX, minY, maxX, maxY)
                              else (minX, minY, maxX, maxY)))
                        (32767, 32767, - 32768, - 32768)
                 else (32767, 32767, - 32768, - 32768));
          (minX, minY, maxX, maxY) =
            (if scanned = (32767, 32767, - 32768, - 32768) then (0, 0, int w, int h)
             else scanned)
      in [word_of_int minX, word_of_int minY, word_of_int maxX, word_of_int maxY,
          word_of_int z, word_of_int z, word_of_int tx, word_of_int ty])"

text \<open>
  \<^verbatim>\<open>BITS.prototype.GetPixelExtentFromBitstore = function()
  { return BITS.c_GetPixelExtentFromBitstore(this.data, this.x, this.y, this.z, this.img_width, this.img_height); };\<close>
\<close>

definition GetPixelExtentFromBitstore :: "BITS \<Rightarrow> u32 list" where
  "GetPixelExtentFromBitstore bs =
     c_GetPixelExtentFromBitstore (bs_data bs) (bs_x bs) (bs_y bs) (bs_z bs)
       (bs_img_width bs) (bs_img_height bs)"

section \<open>IndexSet (LBITS)\<close>

text \<open>
  The fields of an \<open>LBITS\<close> object that the modelled methods use.  The leading
  underscore of \<open>_didLazyLoad\<close>, \<open>_wantedForceLoad\<close> and \<open>_hasCompleteSingleIndex\<close>
  is dropped.  The local-storage cache, the network and the worker are outside the
  state: storing a bitmap in the cache changes no field.
\<close>

record LBITS =
  layerId :: int
  minZ :: int
  maxZ :: int
  bitstores :: "BITS list"
  extent :: "u32 list option"
  isReady :: bool
  hasCompleteSingleIndex :: bool
  didLazyLoad :: bool
  wantedForceLoad :: bool
  idx_lazyload_detail :: bool
  idx_lazyload_dim :: bool
  img_fx_unshadow :: bool
  img_fx_unstroke :: bool
  img_ch_offset :: nat
  img_alpha_threshold :: int
  img_unshd_threshold :: int
  img_width :: nat
  img_height :: nat

text \<open>
  The constructor with default options, up to the point where it requests the master
  tile:
  \<^verbatim>\<open>this.layerId = layerId;  this.minZ = minZ;  this.maxZ = maxZ;
  this.bitstores = new Array();  this.extent = null;  this.isReady = false;
  this._hasCompleteSingleIndex = false;  this._didLazyLoad = false;
  this.idx_lazyload_detail = true;  this.idx_lazyload_dim = true;
  this.img_fx_unshadow = false;  this.img_fx_unstroke = false;
  this.img_ch_offset = 3;  this.img_alpha_threshold = 1;  this.img_unshd_threshold = 1;
  this.img_width = 256;  this.img_height = 256;
  ...
  this._wantedForceLoad = false;\<close>
\<close>

definition new_LBITS :: "int \<Rightarrow> int \<Rightarrow> int \<Rightarrow> LBITS" where
  "new_LBITS lid minz maxz =
     \<lparr> layerId = lid, minZ = minz, maxZ = maxz,
       bitstores = [], extent = None, isReady = False,
       hasCompleteSingleIndex = False, didLazyLoad = False, wantedForceLoad = False,
       idx_lazyload_detail = True, idx_lazyload_dim = True,
       img_fx_unshadow = False, img_fx_unstroke = False,
       img_ch_offset = 3, img_alpha_threshold = 1, img_unshd_threshold = 1,
       img_width = 256, img_height = 256 \<rparr>"

text \<open>
  \<^verbatim>\<open>LBITS.prototype.IsTileInExtent = function(x, y, z, extent_u32)
  {
      if (this.extent == null) return true;
      if (extent_u32  == null) extent_u32 = BITS.c_GetNewPxExtentVector_u32(x, y, z, this._defExZ, this.img_width, this.img_height);
      return !(   extent_u32[2] < this.extent[0] || extent_u32[0] > this.extent[2]
               || extent_u32[3] < this.extent[1] || extent_u32[1] > this.extent[3]);
  };\<close>
\<close>

definition IsTileInExtent :: "LBITS \<Rightarrow> int \<Rightarrow> int \<Rightarrow> int \<Rightarrow> u32 list option \<Rightarrow> bool" where
  "IsTileInExtent st x y z extent_u32_opt =
     (case extent st of
        None \<Rightarrow> True
      | Some ext \<Rightarrow>
          let extent_u32 = (case extent_u32_opt of
                              None \<Rightarrow> c_GetNewPxExtentVector_u32 x y z c_GetDefaultExtentZoomLevel
                                        (Some (int (img_width st))) (Some (int (img_height st)))
                            | Some e \<Rightarrow> e)
          in \<not> (u32_lt (ta_get extent_u32 2) (ta_get ext 0)
                \<or> u32_gt (ta_get extent_u32 0) (ta_get ext 2)
                \<or> u32_lt (ta_get extent_u32 3) (ta_get ext 1)
                \<or> u32_gt (ta_get extent_u32 1) (ta_get ext 3)))"

text \<open>
  \<^verbatim>\<open>LBITS.prototype.UpdateLayerExtentFromBitstorePixelExtent = function(px)
  {
      if (this.extent == null)
      {
          this.extent    = new Uint32Array(16);
          this.extent[0] = 0xFFFFFFFF;
          this.extent[1] = 0xFFFFFFFF;
      }
      BITS.c_vPixelExtentToMercExtent_u32(px, this.img_width, this.img_height);
      if (px[5] >= this.extent[12]) { if (px[0] < this.extent[0]) { this.extent[0] = px[0]; this.extent[12] = px[5]; }
                                      if (px[2] < this.extent[0]) { this.extent[0] = px[2]; this.extent[12] = px[5]; } }
      if (px[5] >= this.extent[13]) { if (px[1] < this.extent[1]) { this.extent[1] = px[1]; this.extent[13] = px[5]; }
                                      if (px[3] < this.extent[1]) { this.extent[1] = px[3]; this.extent[13] = px[5]; } }
      if (px[5] >= this.extent[14]) { if (px[2] > this.extent[2]) { this.extent[2] = px[2]; this.extent[14] = px[5]; }
                                      if (px[0] > this.extent[2]) { this.extent[2] = px[0]; this.extent[14] = px[5]; } }
      if (px[5] >= this.extent[15]) { if (px[3] > this.extent[3]) { this.extent[3] = px[3]; this.extent[15] = px[5]; }
                                      if (px[1] > this.extent[3]) { this.extent[3] = px[1]; this.extent[15] = px[5]; } }
  };\<close>
  \<open>extent_edge_lower e px edge zslot a b\<close> is one of the first two lines (an edge that
  moves down), \<open>extent_edge_raise\<close> one of the last two (an edge that moves up); a
  store happens only after a comparison with the stored value succeeded, so the value
  stored is never \<open>undefined\<close>.
\<close>

definition extent_edge_lower :: "u32 list \<Rightarrow> u32 list \<Rightarrow> nat \<Rightarrow> nat \<Rightarrow> nat \<Rightarrow> nat \<Rightarrow> u32 list" where
  "extent_edge_lower e px edge zslot a b =
     (if u32_ge (ta_get px 5) (ta_get e zslot)
      then
        let e = (if u32_lt (ta_get px a) (ta_get e edge)
                 then e[edge := or_zero (ta_get px a), zslot := or_zero (ta_get px 5)] else e)
        in (if u32_lt (ta_get px b) (ta_get e edge)
            then e[edge := or_zero (ta_get px b), zslot := or_zero (ta_get px 5)] else e)
      else e)"

definition extent_edge_raise :: "u32 list \<Rightarrow> u32 list \<Rightarrow> nat \<Rightarrow> nat \<Rightarrow> nat \<Rightarrow> nat \<Rightarrow> u32 list" where
  "extent_edge_raise e px edge zslot a b =
     (if u32_ge (ta_get px 5) (ta_get e zslot)
      then
        let e = (if u32_gt (ta_get px a) (ta_get e edge)
                 then e[edge := or_zero (ta_get px a), zslot := or_zero (ta_get px 5)] else e)
        in (if u32_gt (ta_get px b) (ta_get e edge)
            then e[edge := or_zero (ta_get px b), zslot := or_zero (ta_get px 5)] else e)
      else e)"

definition UpdateLayerExtentFromBitstorePixelExtent :: "LBITS \<Rightarrow> u32 list \<Rightarrow> LBITS" where
  "UpdateLayerExtentFromBitstorePixelExtent st px0 =
     (let e = (case extent st of
                 None \<Rightarrow> (replicate 16 0)[0 := 0xFFFFFFFF, 1 := 0xFFFFFFFF]
               | Some e \<Rightarrow> e);
          px = c_vPixelExtentToMercExtent_u32 px0 (img_width st) (img_height st);
          e = extent_edge_lower e px 0 12 0 2;
          e = extent_edge_lower e px 1 13 1 3;
          e = extent_edge_raise e px 2 14 2 0;
          e = extent_edge_raise e px 3 15 3 1
      in st\<lparr>extent := Some e\<rparr>)"

text \<open>
  \<^verbatim>\<open>LBITS.prototype.AddAllDefaultBitstores = function()
  {
      var sr = this.FindOptimalSingleIndex();
      if (sr != null && (sr[3] == 1 || this.idx_max_bitmap_n == 1))
      {
          this._hasCompleteSingleIndex = sr[3] == 1;
          if (sr[2] != 0) { ... AddBitstoreHusk or GetAsync_Any ... }
      }
      else { ... QueryMultiTXYs ... AddBitstoreHusk or GetAsync_Any ... }
  };
  LBITS.prototype.FindOptimalSingleIndex = function()
  {
      var _xOut=0,_yOut=0,_zOut=0,_isComplete=true;
      var max_single_index_z = LBITS.GetMaxZoomLevelSingleIndexForTileWidthHeightPx(this.img_width, this.img_height);
      if (this.maxZ > max_single_index_z) { ... }
      ...
      return [_xOut, _yOut, _zOut, (_isComplete ? 1 : 0)];
  };\<close>
  When \<open>maxZ\<close> does not exceed the maximum single-index zoom level the search returns
  \<open>[0, 0, 0, 1]\<close> and the only effect is \<open>_hasCompleteSingleIndex = true\<close>.
  Otherwise supplemental index tiles are selected and requested from the cache and the
  network; what this does to the object depends on those collaborators and is the
  parameter \<open>select_and_fetch\<close>, which may add members or throw.
\<close>

definition AddAllDefaultBitstores :: "(LBITS \<Rightarrow> error + LBITS) \<Rightarrow> LBITS \<Rightarrow> error + LBITS" where
  "AddAllDefaultBitstores select_and_fetch st =
     (let max_single_index_z =
            GetMaxZoomLevelSingleIndexForTileWidthHeightPx (int (img_width st)) (int (img_height st))
      in if maxZ st > max_single_index_z
         then select_and_fetch st
         else Inr (st\<lparr>hasCompleteSingleIndex := True\<rparr>))"

text \<open>
  \<^verbatim>\<open>LBITS.prototype.FinishLazyLoadInit = function()
  {
      if (this.idx_lazyload_detail && !this._didLazyLoad && this.bitstores.length > 0)
      {
          this._didLazyLoad = true;
          this.AddAllDefaultBitstores();
      }
      else if (this.bitstores.length == 0)
      {
          if (this.idx_lazyload_detail) this._wantedForceLoad = true;
      }
  };\<close>
\<close>

definition FinishLazyLoadInit :: "(LBITS \<Rightarrow> error + LBITS) \<Rightarrow> LBITS \<Rightarrow> error + LBITS" where
  "FinishLazyLoadInit select_and_fetch st =
     (if idx_lazyload_detail st \<and> \<not> didLazyLoad st \<and> length (bitstores st) > 0
      then AddAllDefaultBitstores select_and_fetch (st\<lparr>didLazyLoad := True\<rparr>)
      else if length (bitstores st) = 0
      then (if idx_lazyload_detail st then Inr (st\<lparr>wantedForceLoad := True\<rparr>) else Inr st)
      else Inr st)"

text \<open>
  \<^verbatim>\<open>LBITS.prototype.ShouldLoadTile = function(layerId, x, y, z, extent_u32)
  {
      var shouldLoad = true;
      if (this.layerId == layerId && this.isReady)
      {
          if (this.idx_lazyload_detail && !this._didLazyLoad) { this.FinishLazyLoadInit(); }
          shouldLoad =    z >= this.minZ && z <= this.maxZ && x >= 0 && y >= 0
                       && x < (1<<z) && y < (1<<z)
                       && this.IsTileInExtent(x, y, z, extent_u32);
          var neededProc = false;
          var bs         = null;
          for (var i=0; i<this.bitstores.length; i++)
          {
              bs = this.bitstores[i];
              if (this.idx_lazyload_detail && !this.idx_lazyload_dim)
              {
                  if (bs.needGet && !bs[i].getting && bs[i].CanIndexTile(x, y, z, extent_u32))
                  {
                      bs.getting = true;
                      this.GetAsync_Any(bs.x, bs.y, bs.z, false);
                      return true;
                  }
                  neededProc = bs.needProc;
              }
              if (shouldLoad) { shouldLoad = bs.ShouldLoadTile(layerId,x,y,z, extent_u32); }
              if (this.idx_lazyload_detail && !this.idx_lazyload_dim)
              {
                  if (neededProc && !bs.needProc)
                  {
                      var ivs = bs.DecomposeIndexIntoIV();
                      this.StorageSet(this.GetStorageKey(bs.x, bs.y, bs.z), ivs[0], ivs[1]);
                  }
              }
              if (!shouldLoad) break;
          }
      }
      return shouldLoad;
  };\<close>
  \<open>members_loop\<close> is the \<open>for\<close> loop from the current member on; it returns the
  answer and the members as the calls leave them.  \<open>lazy\<close> is
  \<open>idx_lazyload_detail && !idx_lazyload_dim\<close>.  A \<open>BITS\<close> object has no numeric
  properties, so \<open>bs[i]\<close> is \<open>undefined\<close> and \<open>bs[i].getting\<close>, evaluated when
  \<open>bs.needGet\<close> holds, throws a TypeError.  \<open>DecomposeIndexIntoIV\<close> returns \<open>null\<close>
  for a member without data, and \<open>ivs[0]\<close> then throws a TypeError.
\<close>

fun members_loop ::
  "bool \<Rightarrow> int \<Rightarrow> int \<Rightarrow> int \<Rightarrow> int \<Rightarrow> u32 list option \<Rightarrow> bool \<Rightarrow> bool \<Rightarrow> BITS list
   \<Rightarrow> error + (bool \<times> BITS list)" where
  "members_loop lazy lid x y z extent_u32 shouldLoad neededProc [] = Inr (shouldLoad, [])"
| "members_loop lazy lid x y z extent_u32 shouldLoad neededProc (bs # rest) =
     (if lazy \<and> bs_needGet bs then Inl TypeError
      else
        let neededProc = (if lazy then bs_needProc bs else neededProc)
        in case (if shouldLoad then BITS_ShouldLoadTile bs lid x y z extent_u32
                 else Inr (shouldLoad, bs)) of
             Inl e \<Rightarrow> Inl e
           | Inr (shouldLoad, bs') \<Rightarrow>
               if lazy \<and> neededProc \<and> \<not> bs_needProc bs'
                  \<and> c_DecomposeIndexIntoIV (bs_data bs') = None
               then Inl TypeError
               else if \<not> shouldLoad then Inr (shouldLoad, bs' # rest)
               else (case members_loop lazy lid x y z extent_u32 shouldLoad neededProc rest of
                       Inl e \<Rightarrow> Inl e
                     | Inr (r, rest') \<Rightarrow> Inr (r, bs' # rest')))"

definition LBITS_ShouldLoadTile ::
  "(LBITS \<Rightarrow> error + LBITS) \<Rightarrow> LBITS \<Rightarrow> int \<Rightarrow> int \<Rightarrow> int \<Rightarrow> int \<Rightarrow> u32 list option
   \<Rightarrow> error + (bool \<times> LBITS)" where
  "LBITS_ShouldLoadTile select_and_fetch st lid x y z extent_u32 =
     (if layerId st = lid \<and> isReady st
      then
        (case (if idx_lazyload_detail st \<and> \<not> didLazyLoad st
               then FinishLazyLoadInit select_and_fetch st else Inr st) of
           Inl e \<Rightarrow> Inl e
         | Inr st1 \<Rightarrow>
             let shouldLoad = (z \<ge> minZ st1 \<and> z \<le> maxZ st1 \<and> x \<ge> 0 \<and> y \<ge> 0
                               \<and> x < js_shl 1 z \<and> y < js_shl 1 z
                               \<and> IsTileInExtent st1 x y z extent_u32)
             in case members_loop (idx_lazyload_detail st1 \<and> \<not> idx_lazyload_dim st1)
                       lid x y z extent_u32 shouldLoad False (bitstores st1) of
                  Inl e \<Rightarrow> Inl e
                | Inr (r, members) \<Rightarrow> Inr (r, st1\<lparr>bitstores := members\<rparr>))
      else Inr (True, st))"

text \<open>
  \<^verbatim>\<open>LBITS.prototype.FindBitstoreWithXYZ = function(x, y, z)
  {
      var bs = null;
      for (var i=0; i<this.bitstores.length; i++)
          if (   (x == -1 || this.bitstores[i].x == x)
              && (y == -1 || this.bitstores[i].y == y)
              &&             this.bitstores[i].z == z)
          { bs = this.bitstores[i]; break; }
      return bs;
  };\<close>
  The position of the first match, so that the member can be updated in place.
\<close>

fun FindBitstoreWithXYZ :: "BITS list \<Rightarrow> int \<Rightarrow> int \<Rightarrow> int \<Rightarrow> nat option" where
  "FindBitstoreWithXYZ [] x y z = None"
| "FindBitstoreWithXYZ (bs # rest) x y z =
     (if (x = - 1 \<or> bs_x bs = x) \<and> (y = - 1 \<or> bs_y bs = y) \<and> bs_z bs = z
      then Some 0
      else map_option Suc (FindBitstoreWithXYZ rest x y z))"

text \<open>
  \<^verbatim>\<open>LBITS.prototype.AddBitstoreFromBitmapIndex_NoLazyLoad = function(bits, x, y, z, shouldUpdateExtent)
  {
      var bs = new BITS(this.layerId, x, y, z, this.img_width, this.img_height, bits, true);
      this.bitstores.push(bs);
      if (shouldUpdateExtent)
      {
          var px_extent = bs.GetPixelExtentFromBitstore();
          this.UpdateLayerExtentFromBitstorePixelExtent(px_extent);
      }
      bs.isReady = true;
  };\<close>
  The member is an object shared with the list: the final assignment to \<open>isReady\<close>,
  which nothing reads in between, is made when the member is pushed.
\<close>

definition AddBitstoreFromBitmapIndex_NoLazyLoad ::
  "LBITS \<Rightarrow> u16 list option \<Rightarrow> int \<Rightarrow> int \<Rightarrow> int \<Rightarrow> bool \<Rightarrow> LBITS" where
  "AddBitstoreFromBitmapIndex_NoLazyLoad st bits x y z shouldUpdateExtent =
     (let bs = new_BITS (layerId st) x y z (img_width st) (img_height st) bits True;
          st = st\<lparr>bitstores := bitstores st @ [bs\<lparr>bs_isReady := True\<rparr>]\<rparr>
      in if shouldUpdateExtent
         then UpdateLayerExtentFromBitstorePixelExtent st (GetPixelExtentFromBitstore bs)
         else st)"

text \<open>
  \<^verbatim>\<open>LBITS.prototype.AddBitstoreFromBitmapIndex_WithLazyLoad = function(bits, x, y, z, shouldUpdateExtent)
  {
      var bs = this.FindBitstoreWithXYZ(x,y,z);
      if (bs != null && bs.needGet && bs.getting)
      {
          bs.needGet = false;
          bs.getting = false;
          bs.data    = bits;
          if (shouldUpdateExtent && z == this.minZ)
          {
              var px_extent = bs.GetPixelExtentFromBitstore();
              this.UpdateLayerExtentFromBitstorePixelExtent(px_extent);
          }
          bs.isReady = true;
      }
  };\<close>
\<close>

definition AddBitstoreFromBitmapIndex_WithLazyLoad ::
  "LBITS \<Rightarrow> u16 list option \<Rightarrow> int \<Rightarrow> int \<Rightarrow> int \<Rightarrow> bool \<Rightarrow> LBITS" where
  "AddBitstoreFromBitmapIndex_WithLazyLoad st bits x y z shouldUpdateExtent =
     (case FindBitstoreWithXYZ (bitstores st) x y z of
        None \<Rightarrow> st
      | Some i \<Rightarrow>
          let bs = bitstores st ! i
          in if bs_needGet bs \<and> bs_getting bs
             then
               let bs = bs\<lparr>bs_needGet := False, bs_getting := False, bs_data := bits\<rparr>;
                   st = (if shouldUpdateExtent \<and> z = minZ st
                         then UpdateLayerExtentFromBitstorePixelExtent st
                                (GetPixelExtentFromBitstore bs)
                         else st)
               in st\<lparr>bitstores := (bitstores st)[i := bs\<lparr>bs_isReady := True\<rparr>]\<rparr>
             else st)"

text \<open>
  The common tail of \<open>AddBitstoreFromBitmapIndex\<close> and \<open>AddBitstoreFromRGBA8888\<close>:
  \<^verbatim>\<open>if (shouldAutoload)
  {
      if (!this.idx_lazyload_detail || this._wantedForceLoad)
      {
          if (this._wantedForceLoad)
          {
              this._didLazyLoad     = true;
              this._wantedForceLoad = false;
          }
          this.AddAllDefaultBitstores();
      }
      this.isReady = true;
  }\<close>
\<close>

definition autoload_tail :: "(LBITS \<Rightarrow> error + LBITS) \<Rightarrow> LBITS \<Rightarrow> bool \<Rightarrow> error + LBITS" where
  "autoload_tail select_and_fetch st shouldAutoload =
     (if shouldAutoload
      then
        (case (if \<not> idx_lazyload_detail st \<or> wantedForceLoad st
               then AddAllDefaultBitstores select_and_fetch
                      (if wantedForceLoad st
                       then st\<lparr>didLazyLoad := True, wantedForceLoad := False\<rparr> else st)
               else Inr st) of
           Inl e \<Rightarrow> Inl e
         | Inr st' \<Rightarrow> Inr (st'\<lparr>isReady := True\<rparr>))
      else Inr st)"

text \<open>
  \<^verbatim>\<open>LBITS.prototype.AddBitstoreFromBitmapIndex = function(bits, x, y, z, shouldAutoload, shouldUpdateExtent)
  {
      if (this.idx_lazyload_detail && !this.idx_lazyload_dim && z > this.minZ)
          this.AddBitstoreFromBitmapIndex_WithLazyLoad(bits, x, y, z, shouldUpdateExtent);
      else
          this.AddBitstoreFromBitmapIndex_NoLazyLoad(bits, x, y, z, shouldUpdateExtent);
      ... (the common tail)
  };\<close>
\<close>

definition AddBitstoreFromBitmapIndex ::
  "(LBITS \<Rightarrow> error + LBITS) \<Rightarrow> LBITS \<Rightarrow> u16 list option \<Rightarrow> int \<Rightarrow> int \<Rightarrow> int \<Rightarrow> bool \<Rightarrow> bool
   \<Rightarrow> error + LBITS" where
  "AddBitstoreFromBitmapIndex select_and_fetch st bits x y z shouldAutoload shouldUpdateExtent =
     autoload_tail select_and_fetch
       (if idx_lazyload_detail st \<and> \<not> idx_lazyload_dim st \<and> z > minZ st
        then AddBitstoreFromBitmapIndex_WithLazyLoad st bits x y z shouldUpdateExtent
        else AddBitstoreFromBitmapIndex_NoLazyLoad st bits x y z shouldUpdateExtent)
       shouldAutoload"

text \<open>
  \<^verbatim>\<open>LBITS.prototype.AddBitstoreFromRGBA8888_NoLazyLoad = function(rgba, x, y, z)
  {
      var bs = new BITS(this.layerId, x, y, z, this.img_width, this.img_height, null, false);
      this.bitstores.push(bs);
      bs.isReady = true;
      bs.SetBitmapFromRGBA8888Tile(rgba, this.img_fx_unshadow, this.img_fx_unstroke, this.img_ch_offset, this.img_alpha_threshold, this.img_unshd_threshold);
      var px_extent = bs.GetPixelExtentFromBitstore();
      this.UpdateLayerExtentFromBitstorePixelExtent(px_extent);
      this.AddBitstoreToLocalCache(bs);
  };\<close>
  \<open>AddBitstoreToLocalCache\<close> writes to the cache only, and only when the member has
  data.
\<close>

definition AddBitstoreFromRGBA8888_NoLazyLoad ::
  "LBITS \<Rightarrow> u8 list option \<Rightarrow> int \<Rightarrow> int \<Rightarrow> int \<Rightarrow> error + LBITS" where
  "AddBitstoreFromRGBA8888_NoLazyLoad st rgba x y z =
     (let bs = new_BITS (layerId st) x y z (img_width st) (img_height st) None False;
          bs = bs\<lparr>bs_isReady := True\<rparr>
      in case SetBitmapFromRGBA8888Tile bs rgba (img_fx_unshadow st) (img_fx_unstroke st)
                (img_ch_offset st) (img_alpha_threshold st) (img_unshd_threshold st) of
           Inl e \<Rightarrow> Inl e
         | Inr bs \<Rightarrow>
             Inr (UpdateLayerExtentFromBitstorePixelExtent
                    (st\<lparr>bitstores := bitstores st @ [bs]\<rparr>)
                    (GetPixelExtentFromBitstore bs)))"

text \<open>
  \<^verbatim>\<open>LBITS.prototype.AddBitstoreFromRGBA8888_WithLazyLoad = function(rgba, x, y, z)
  {
      var bs = this.FindBitstoreWithXYZ(x,y,z);
      if (bs != null && bs.needGet && bs.getting)
      {
          bs.needGet  = false;
          bs.getting  = false;
          bs.isReady  = true;
          bs.tempData = rgba;
          bs.needProc = true;
      }
      else { ...console.log... }
  };\<close>
\<close>

definition AddBitstoreFromRGBA8888_WithLazyLoad ::
  "LBITS \<Rightarrow> u8 list option \<Rightarrow> int \<Rightarrow> int \<Rightarrow> int \<Rightarrow> LBITS" where
  "AddBitstoreFromRGBA8888_WithLazyLoad st rgba x y z =
     (case FindBitstoreWithXYZ (bitstores st) x y z of
        None \<Rightarrow> st
      | Some i \<Rightarrow>
          let bs = bitstores st ! i
          in if bs_needGet bs \<and> bs_getting bs
             then st\<lparr>bitstores := (bitstores st)
                       [i := bs\<lparr>bs_needGet := False, bs_getting := False, bs_isReady := True,
                                 bs_tempData := rgba, bs_needProc := True\<rparr>]\<rparr>
             else st)"

text \<open>
  \<^verbatim>\<open>LBITS.prototype.AddBitstoreFromRGBA8888 = function(rgba, x, y, z, shouldAutoload)
  {
      if (this.idx_lazyload_detail && !this.idx_lazyload_dim && z > this.minZ)
          this.AddBitstoreFromRGBA8888_WithLazyLoad(rgba, x, y, z);
      else
          this.AddBitstoreFromRGBA8888_NoLazyLoad(rgba, x, y, z);
      ... (the common tail)
  };\<close>
\<close>

definition AddBitstoreFromRGBA8888 ::
  "(LBITS \<Rightarrow> error + LBITS) \<Rightarrow> LBITS \<Rightarrow> u8 list option \<Rightarrow> int \<Rightarrow> int \<Rightarrow> int \<Rightarrow> bool
   \<Rightarrow> error + LBITS" where
  "AddBitstoreFromRGBA8888 select_and_fetch st rgba x y z shouldAutoload =
     (case (if idx_lazyload_detail st \<and> \<not> idx_lazyload_dim st \<and> z > minZ st
            then Inr (AddBitstoreFromRGBA8888_WithLazyLoad st rgba x y z)
            else AddBitstoreFromRGBA8888_NoLazyLoad st rgba x y z) of
        Inl e \<Rightarrow> Inl e
      | Inr st' \<Rightarrow> autoload_tail select_and_fetch st' shouldAutoload)"

text \<open>
  The callback of \<open>AddAsync_PNG_URL_libpng\<close>, run on the decoded raster:
  \<^verbatim>\<open>var rgba = LBITS.GetNewRGBA8888_FromPNG_libpng(response);
  var     rgba_bytes = rgba.length; // 2015-08-24 ND: verify tile size is as expected
  var expected_bytes = this.img_width * this.img_height * 4;
  if (rgba_bytes != expected_bytes)
  {
      if (this._log) console.log("... Rejecting.", ...);
  }
  else
  {
      this.AddBitstoreFromRGBA8888(rgba, x, y, z, shouldAutoload);
  }\<close>
\<close>

definition AddAsync_PNG_URL_libpng_callback ::
  "(LBITS \<Rightarrow> error + LBITS) \<Rightarrow> LBITS \<Rightarrow> u8 list \<Rightarrow> int \<Rightarrow> int \<Rightarrow> int \<Rightarrow> bool \<Rightarrow> error + LBITS" where
  "AddAsync_PNG_URL_libpng_callback select_and_fetch st rgba x y z shouldAutoload =
     (let rgba_bytes = length rgba;
          expected_bytes = img_width st * img_height st * 4
      in if rgba_bytes \<noteq> expected_bytes
         then Inr st
         else AddBitstoreFromRGBA8888 select_and_fetch st (Some rgba) x y z shouldAutoload)"

text \<open>
  The \<open>onload\<close> handler of \<open>AddAsync_PNG_ImgURL_Canvas\<close>, run on the loaded image,
  whose canvas raster \<open>buf.data\<close> has \<open>img.width * img.height * 4\<close> bytes:
  \<^verbatim>\<open>var fail = img.width != this.img_width;
  if (!fail)
  {
      var cvs = document.createElement("canvas");
      var ctx = cvs.getContext("2d");
      cvs.width  = img.width;
      cvs.height = img.height;
      ctx.drawImage(img, 0, 0);
      var buf = ctx.getImageData(0, 0, cvs.width, cvs.height);
      this.AddBitstoreFromRGBA8888(buf.data, x, y, z, shouldAutoload);
  }
  else { ...console.log... }\<close>
  The image is given by its width and its raster.
\<close>

definition AddAsync_PNG_ImgURL_Canvas_onload ::
  "(LBITS \<Rightarrow> error + LBITS) \<Rightarrow> LBITS \<Rightarrow> nat \<Rightarrow> u8 list \<Rightarrow> int \<Rightarrow> int \<Rightarrow> int \<Rightarrow> bool
   \<Rightarrow> error + LBITS" where
  "AddAsync_PNG_ImgURL_Canvas_onload select_and_fetch st img_w buf_data x y z shouldAutoload =
     (let fail = (img_w \<noteq> img_width st)
      in if \<not> fail
         then AddBitstoreFromRGBA8888 select_and_fetch st (Some buf_data) x y z shouldAutoload
         else Inr st)"

text \<open>
  A layer of 4 by 4 pixel tiles over zoom levels 0 to 3 with two indices, as the calls
  of the source build it: the constructor (with the tile size option); the master
  bitmap for tile (0, 0) at zoom 0, with only pixel (3, 3) set, arriving from the cache;
  a first query, which runs the lazy initialisation (the selection then requests tiles
  without changing the object); the bitmap for tile (1, 1) at zoom 1, with only its
  pixel (3, 3) set, arriving from the cache.  In pixels of zoom 3 the data is the
  square from (28, 28) to (31, 31), that is tile (7, 7).
\<close>

definition two_index_layer :: "error + LBITS" where
  "two_index_layer =
     (case AddBitstoreFromBitmapIndex Inr ((new_LBITS 1 0 3)\<lparr>img_width := 4, img_height := 4\<rparr>)
             (Some [0x8000]) 0 0 0 True True of
        Inl e \<Rightarrow> Inl e
      | Inr s1 \<Rightarrow>
          (case LBITS_ShouldLoadTile Inr s1 1 0 0 0 None of
             Inl e \<Rightarrow> Inl e
           | Inr (r, s2) \<Rightarrow> AddBitstoreFromBitmapIndex Inr s2 (Some [0x8000]) 1 1 1 False True))"

text \<open>The object these calls produce, written out.\<close>

definition master_index :: BITS where
  "master_index =
     \<lparr> bs_layerId = 1, bs_x = 0, bs_y = 0, bs_z = 0,
       bs_data = Some [0x8000], bs_isReady = True, bs_tempData = None,
       bs_needProc = False, bs_needGet = False, bs_getting = False,
       bs_extent = [0, 0, 8388608, 8388608, 21, 0],
       bs_img_fx_unshadow = False, bs_img_fx_unstroke = False,
       bs_img_ch_offset = 3, bs_img_alpha_threshold = 1, bs_img_unshd_threshold = 1,
       bs_img_width = 4, bs_img_height = 4 \<rparr>"

definition detail_index :: BITS where
  "detail_index =
     \<lparr> bs_layerId = 1, bs_x = 1, bs_y = 1, bs_z = 1,
       bs_data = Some [0x8000], bs_isReady = True, bs_tempData = None,
       bs_needProc = False, bs_needGet = False, bs_getting = False,
       bs_extent = [4194304, 4194304, 8388608, 8388608, 21, 1],
       bs_img_fx_unshadow = False, bs_img_fx_unstroke = False,
       bs_img_ch_offset = 3, bs_img_alpha_threshold = 1, bs_img_unshd_threshold = 1,
       bs_img_width = 4, bs_img_height = 4 \<rparr>"

definition two_index_state :: LBITS where
  "two_index_state =
     \<lparr> layerId = 1, minZ = 0, maxZ = 3,
       bitstores = [master_index, detail_index],
       extent = Some [6291456, 6291456, 7340032, 7340032, 0, 0, 0, 0, 0, 0, 0, 0, 0, 0, 1, 1],
       isReady = True, hasCompleteSingleIndex = False, didLazyLoad = True,
       wantedForceLoad = False, idx_lazyload_detail = True, idx_lazyload_dim = True,
       img_fx_unshadow = False, img_fx_unstroke = False,
       img_ch_offset = 3, img_alpha_threshold = 1, img_unshd_threshold = 1,
       img_width = 4, img_height = 4 \<rparr>"

text \<open>
  A raster of the wrong shape for a layer of 256 by 256 pixel tiles: the canvas raster of
  an image 256 pixels wide and 128 high (fully transparent), and the member and the
  object that \<open>AddAsync_PNG_ImgURL_Canvas\<close> leaves when such an image arrives as the
  master tile of a new layer with zoom levels 0 to 8.
\<close>

definition half_height_raster :: "u8 list" where
  "half_height_raster = replicate (256 * 128 * 4) 0"

definition dataless_member :: BITS where
  "dataless_member =
     \<lparr> bs_layerId = 1, bs_x = 0, bs_y = 0, bs_z = 0,
       bs_data = None, bs_isReady = True, bs_tempData = None,
       bs_needProc = False, bs_needGet = False, bs_getting = False,
       bs_extent = [0, 0, 536870912, 536870912, 21, 0],
       bs_img_fx_unshadow = False, bs_img_fx_unstroke = False,
       bs_img_ch_offset = 3, bs_img_alpha_threshold = 1, bs_img_unshd_threshold = 1,
       bs_img_width = 256, bs_img_height = 256 \<rparr>"

definition dataless_layer :: LBITS where
  "dataless_layer =
     \<lparr> layerId = 1, minZ = 0, maxZ = 8,
       bitstores = [dataless_member],
       extent = Some [0, 0, 536870912, 536870912, 0, 0, 0, 0, 0, 0, 0, 0, 0, 0, 0, 0],
       isReady = True, hasCompleteSingleIndex = False, didLazyLoad = False,
       wantedForceLoad = False, idx_lazyload_detail = True, idx_lazyload_dim = True,
       img_fx_unshadow = False, img_fx_unstroke = False,
       img_ch_offset = 3, img_alpha_threshold = 1, img_unshd_threshold = 1,
       img_width = 256, img_height = 256 \<rparr>"


section \<open>Coordinate reprojection\<close>

text \<open>
  C4 (as the code computes it).  For 256-pixel tiles the result is 8; for 512-pixel tiles
  the result is 9, the largest \<open>z\<close> with \<open>2 ^ z \<le> 512\<close>.
\<close>

theorem max_single_index_zoom_256_512:
  "GetMaxZoomLevelSingleIndexForTileWidthHeightPx 256 256 = 8
   \<and> GetMaxZoomLevelSingleIndexForTileWidthHeightPx 512 512 = 9"
  by code_simp

text \<open>C4 as stated fails: the value for 512-pixel tiles is not 7.\<close>

theorem max_single_index_zoom_512_not_7:
  "GetMaxZoomLevelSingleIndexForTileWidthHeightPx 512 512 \<noteq> 7"
  by code_simp

lemma ToUint32_ToInt32: "ToUint32 (ToInt32 u) = u mod 2 ^ 32"
  by (simp add: ToUint32_def ToInt32_def Let_def)

lemma js_shr_u_js_shl:
  assumes v: "0 \<le> v" and d: "0 \<le> d" and lt: "v * 2 ^ nat d < 2 ^ 32"
  shows "js_shr_u (js_shl v d) d = v"
proof (cases "v = 0")
  case True
  then show ?thesis by (simp add: js_shr_u_def js_shl_def ToInt32_def ToUint32_def)
next
  case False
  with v have v1: "1 \<le> v" by simp
  have "(2::int) ^ nat d \<le> v * 2 ^ nat d"
    using v1 by (simp add: mult_le_cancel_right1)
  with lt have "(2::int) ^ nat d < 2 ^ 32" by linarith
  then have "nat d < 32" by (intro power_less_imp_less_exp [of 2]) auto
  with d have dm: "d mod 32 = d" by simp
  have nn: "0 \<le> v * 2 ^ nat d" using v by simp
  have "js_shr_u (js_shl v d) d = ((v * 2 ^ nat d) mod 2 ^ 32) div 2 ^ nat d"
    by (simp add: js_shr_u_def js_shl_def ToUint32_ToInt32 dm)
  also have "\<dots> = (v * 2 ^ nat d) div 2 ^ nat d"
    using nn lt by simp
  also have "\<dots> = v" by simp
  finally show ?thesis .
qed

text \<open>
  C8 (as the code computes it).  For a non-negative coordinate \<open>v\<close> and zoom levels
  \<open>a \<le> b\<close>, reprojecting from \<open>a\<close> to \<open>b\<close> and back returns \<open>v\<close> provided the left
  shift does not leave 32 bits, that is \<open>v * 2 ^ (b - a) < 2 ^ 32\<close>.
\<close>

theorem merc_roundtrip:
  assumes "0 \<le> v" and "a \<le> b" and "v * 2 ^ nat (b - a) < 2 ^ 32"
  shows "c_MercXZtoMercXZ (c_MercXZtoMercXZ v a b) b a = v"
proof (cases "a = b")
  case True
  with assms show ?thesis
    by (simp add: c_MercXZtoMercXZ_def js_shr_u_def ToUint32_def)
next
  case False
  with assms have "a < b" by simp
  then show ?thesis
    using assms js_shr_u_js_shl [of v "b - a"]
    by (simp add: c_MercXZtoMercXZ_def)
qed

theorem merc_roundtrip_witness:
  "c_MercXZtoMercXZ (c_MercXZtoMercXZ 300000000 21 24) 24 21 = 300000000"
  using merc_roundtrip [of 300000000 21 24] by simp

text \<open>
  C8 as stated fails when the left shift overflows: the pixel coordinate 300000000 at
  zoom 21, taken to zoom 25 and back, comes out as 31564544.
\<close>

theorem merc_roundtrip_overflow:
  "c_MercXZtoMercXZ (c_MercXZtoMercXZ 300000000 21 25) 25 21 \<noteq> 300000000"
  by code_simp

section \<open>Loops as folds\<close>

lemma for_loop_1: "for_loop i n 1 body s = fold body [i..<n] s"
proof (induction i n "1::nat" body s rule: for_loop.induct)
  case (1 i n body s)
  show ?case
  proof (cases "i < n")
    case True
    then have "[i..<n] = i # [i + 1..<n]" by (simp add: upt_conv_Cons)
    with True "1" show ?thesis by (subst for_loop.simps) simp
  next
    case False
    then show ?thesis by (subst for_loop.simps) simp
  qed
qed

lemma for_loop_Suc_0: "for_loop i n (Suc 0) body s = fold body [i..<n] s"
  using for_loop_1 [of i n body s] by simp

text \<open>The values the loop variable of \<open>for (i = a; i < n; i += d)\<close> takes.\<close>

lemma for_loop_steps_from:
  "for_loop i n d body s = fold (\<lambda>k. body (i + k * d)) [0..<(n - i + d - 1) div d] s"
proof (induction i n d body s rule: for_loop.induct)
  case (1 i n d body s)
  show ?case
  proof (cases "i < n \<and> 0 < d")
    case True
    define m where "m = n - i - 1"
    have cur: "n - i + d - 1 = m + d" using True unfolding m_def by arith
    have md: "(m + d) div d = Suc (m div d)" using True by (simp add: div_add_self2)
    have nxt: "(n - (i + d) + d - 1) div d = m div d"
    proof (cases "i + d \<le> n")
      case le: True
      then have "n - (i + d) + d - 1 = m" using True unfolding m_def by arith
      then show ?thesis by simp
    next
      case gt: False
      then have "n - (i + d) + d - 1 = d - 1" by arith
      moreover have "m < d" using gt True unfolding m_def by arith
      ultimately show ?thesis using True by simp
    qed
    have cnt: "(n - i + d - 1) div d = Suc ((n - (i + d) + d - 1) div d)"
      by (simp only: cur md nxt)
    have "fold (\<lambda>k. body (i + k * d)) [0..<Suc ((n - (i + d) + d - 1) div d)] s
          = fold (\<lambda>k. body (i + k * d)) (0 # map Suc [0..<(n - (i + d) + d - 1) div d]) s"
      by (simp only: upt_conv_Cons [of 0] map_Suc_upt [symmetric])
    also have "\<dots> = fold (\<lambda>k. body (i + d + k * d)) [0..<(n - (i + d) + d - 1) div d] (body i s)"
      by (simp add: fold_map comp_def add.assoc)
    finally show ?thesis
      using True "1" cnt by (subst for_loop.simps) simp
  next
    case False
    have "(d - Suc 0) div d = 0" by (cases d) auto
    with False show ?thesis
      by (subst for_loop.simps) (auto simp: not_less)
  qed
qed

lemma for_loop_steps:
  "for_loop 0 n d body s = fold (\<lambda>k. body (k * d)) [0..<(n + d - 1) div d] s"
  using for_loop_steps_from [of 0 n d body s] by simp


section \<open>The unrolled scatter loop\<close>

lemma upt_four: "[4 * m..<4 * m + 4] = [4 * m, 4 * m + 1, 4 * m + 2, 4 * m + 3]"
  by (simp add: upt_conv_Cons)

lemma fold_groups_of_four:
  "fold (\<lambda>k s. f (k * 4 + 3) (f (k * 4 + 2) (f (k * 4 + 1) (f (k * 4) s)))) [0..<m] s
   = fold f [0..<4 * m] s"
proof (induction m)
  case 0
  show ?case by simp
next
  case (Suc m)
  have "4 * Suc m = 4 * m + 4" by simp
  moreover have "[0..<4 * m + 4] = [0..<4 * m] @ [4 * m..<4 * m + 4]"
    by (rule upt_add_eq_append) simp
  ultimately have "fold f [0..<4 * Suc m] s
             = f (4 * m + 3) (f (4 * m + 2) (f (4 * m + 1) (f (4 * m) (fold f [0..<4 * m] s))))"
    by (simp only: upt_four fold_append comp_def fold_simps)
  with Suc show ?case by (simp add: mult.commute)
qed

lemma ivtovec_u16_fold:
  "ivtovec_u16 dest srci srcv
   = fold (\<lambda>i d. ivtovec_store d srci srcv i) [0..<length srci] dest"
proof -
  define n where "n = length srci"
  define f where "f = (\<lambda>i d. ivtovec_store d srci srcv i)"
  have max_i: "n - n mod 4 = 4 * (n div 4)"
    by (simp add: minus_mod_eq_mult_div)
  have cnt: "(4 * (n div 4) + 4 - 1) div 4 = n div 4" by simp
  have main: "for_loop 0 (4 * (n div 4)) 4
                (\<lambda>i d. f (i + 3) (f (i + 2) (f (i + 1) (f i d)))) dest
              = fold f [0..<4 * (n div 4)] dest"
    by (simp only: for_loop_steps cnt fold_groups_of_four)
  have split: "[0..<n] = [0..<4 * (n div 4)] @ [4 * (n div 4)..<4 * (n div 4) + n mod 4]"
  proof -
    have "4 * (n div 4) + n mod 4 = n" by simp
    moreover have "[0..<4 * (n div 4) + n mod 4]
                   = [0..<4 * (n div 4)] @ [4 * (n div 4)..<4 * (n div 4) + n mod 4]"
      by (rule upt_add_eq_append) simp
    ultimately show ?thesis by simp
  qed
  have "ivtovec_u16 dest srci srcv
        = fold f [4 * (n div 4)..<4 * (n div 4) + n mod 4] (fold f [0..<4 * (n div 4)] dest)"
    unfolding ivtovec_u16_def Let_def n_def [symmetric] max_i for_loop_1
    using main by (simp add: f_def)
  also have "\<dots> = fold f [0..<n] dest"
    by (subst split) simp
  finally show ?thesis by (simp add: f_def n_def)
qed

lemma ivtovec_u16_refines_naive_aux:
  assumes "length srci = length srcv"
  shows "ivtovec_u16 dest srci srcv = naive_ivtovec dest srci srcv (length srci)"
proof -
  have "fold (\<lambda>i d. ivtovec_store d srci srcv i) [0..<length srci] dest
        = fold (\<lambda>i d. d[unat (srci ! i) := srcv ! i]) [0..<length srci] dest"
    using assms by (intro fold_cong) (auto simp: ivtovec_store_def ta_get_def or_zero_def)
  then show ?thesis by (simp add: ivtovec_u16_fold naive_ivtovec_def)
qed

text \<open>
  C10.  For index and value arrays of equal length the 4-way unrolled loop of
  \<open>ivtovec_u16\<close> leaves the destination exactly as the sequential loop
  \<open>dest[srci[i]] = srcv[i]\<close>, \<open>i = 0, \<dots>, n - 1\<close>, does; duplicate indices are
  included, the later write winning in both.
\<close>

theorem ivtovec_u16_refines_naive:
  assumes "length srci = length srcv"
  shows "ivtovec_u16 dest srci srcv = naive_ivtovec dest srci srcv (length srci)"
  using assms by (rule ivtovec_u16_refines_naive_aux)

theorem ivtovec_u16_refines_naive_witness:
  "ivtovec_u16 [0, 0, 0, 0, 0, 0, 0, 0] [1, 3, 1, 7, 9, 2] [10, 20, 30, 40, 50, 60]
   = naive_ivtovec [0, 0, 0, 0, 0, 0, 0, 0] [1, 3, 1, 7, 9, 2] [10, 20, 30, 40, 50, 60] 6
   \<and> naive_ivtovec [0, 0, 0, 0, 0, 0, 0, 0] [1, 3, 1, 7, 9, 2] [10, 20, 30, 40, 50, 60] 6
     = [0, 30, 60, 20, 0, 0, 0, 40]"
proof -
  have len: "length [1, 3, 1, 7, 9, 2 :: u16] = length [10, 20, 30, 40, 50, 60 :: u16]"
    by simp
  have six: "length [1, 3, 1, 7, 9, 2 :: u16] = 6" by simp
  have "ivtovec_u16 [0, 0, 0, 0, 0, 0, 0, 0] [1, 3, 1, 7, 9, 2] [10, 20, 30, 40, 50, 60]
        = naive_ivtovec [0, 0, 0, 0, 0, 0, 0, 0] [1, 3, 1, 7, 9, 2] [10, 20, 30, 40, 50, 60] 6"
    using ivtovec_u16_refines_naive [OF len, of "[0, 0, 0, 0, 0, 0, 0, 0]"]
    unfolding six .
  moreover have "naive_ivtovec [0, 0, 0, 0, 0, 0, 0, 0] [1, 3, 1, 7, 9, 2]
                   [10, 20, 30, 40, 50, 60] 6 = [0, 30, 60, 20, 0, 0, 0, 40 :: u16]"
    by code_simp
  ultimately show ?thesis by simp
qed


section \<open>Round trip through the sparse index/value form\<close>

lemma decompose_fold:
  "fold (\<lambda>i (dest_i_str, dest_v_str).
           if (g :: u16 list) ! i \<noteq> 0
           then (dest_i_str @ [word_of_nat i], dest_v_str @ [g ! i])
           else (dest_i_str, dest_v_str)) [0..<n] (is0, vs0)
   = (is0 @ map word_of_nat (filter (\<lambda>i. g ! i \<noteq> 0) [0..<n]),
      vs0 @ map ((!) g) (filter (\<lambda>i. g ! i \<noteq> 0) [0..<n]))"
  by (induction n) simp_all

lemma c_DecomposeIndexIntoIV_eq:
  "c_DecomposeIndexIntoIV (Some g)
   = Some (map word_of_nat (filter (\<lambda>i. g ! i \<noteq> 0) [0..<length g]),
           map ((!) g) (filter (\<lambda>i. g ! i \<noteq> 0) [0..<length g]))"
  unfolding c_DecomposeIndexIntoIV_def for_loop_1 decompose_fold by simp

lemma fold_store_upt:
  "m \<le> length a \<Longrightarrow> fold (\<lambda>i a. a[i := f i]) [0..<m] a = map f [0..<m] @ drop m a"
proof (induction m)
  case 0
  show ?case by simp
next
  case (Suc m)
  then have m: "m < length a" by simp
  have "(map f [0..<m] @ drop m a)[m := f m] = map f [0..<m] @ (drop m a)[0 := f m]"
    by (simp add: list_update_append)
  also have "(drop m a)[0 := f m] = f m # drop (Suc m) a"
    using m by (simp add: Cons_nth_drop_Suc [symmetric])
  finally show ?case using Suc by simp
qed

lemma decode_halves:
  assumes "length is = k" and "length vs = k"
  shows "for_loop 0 k 1 (\<lambda>i a. a[i := (is @ vs) ! i]) (replicate k 0) = is"
    and "for_loop k (length (is @ vs)) 1 (\<lambda>i a. a[i - k := (is @ vs) ! i]) (replicate k 0) = vs"
proof -
  have "fold (\<lambda>i a. a[i := (is @ vs) ! i]) [0..<k] (replicate k 0)
        = map ((!) (is @ vs)) [0..<k]"
    by (simp add: fold_store_upt)
  also have "\<dots> = map ((!) is) [0..<k]"
    using assms by (intro map_cong) (auto simp: nth_append)
  also have "\<dots> = is" using assms by (metis map_nth)
  finally show "for_loop 0 k 1 (\<lambda>i a. a[i := (is @ vs) ! i]) (replicate k 0) = is"
    by (simp add: for_loop_Suc_0)
  have "[k..<k + k] = map (\<lambda>j. k + j) [0..<k]"
    by (simp add: map_add_upt add.commute)
  then have "fold (\<lambda>i a. a[i - k := (is @ vs) ! i]) [k..<k + k] (replicate k 0)
             = fold (\<lambda>j a. a[j := (is @ vs) ! (k + j)]) [0..<k] (replicate k 0)"
    by (simp add: fold_map comp_def)
  also have "\<dots> = map (\<lambda>j. (is @ vs) ! (k + j)) [0..<k]"
    by (simp add: fold_store_upt)
  also have "\<dots> = map ((!) vs) [0..<k]"
    using assms by (intro map_cong) (auto simp: nth_append)
  also have "\<dots> = vs" using assms by (metis map_nth)
  finally show "for_loop k (length (is @ vs)) 1 (\<lambda>i a. a[i - k := (is @ vs) ! i])
                  (replicate k 0) = vs"
    using assms by (simp add: for_loop_Suc_0)
qed

lemma DecodeBitmapIndexFromBinaryString_eq:
  assumes "length is = length vs"
  shows "DecodeBitmapIndexFromBinaryString (is @ vs) w h
         = fold (\<lambda>i d. d[unat (is ! i) := vs ! i]) [0..<length is]
             (replicate ((w div 4) * (h div 4)) 0)"
proof -
  have half: "length (is @ vs) div 2 = length is" using assms by simp
  note dh = decode_halves [OF refl assms [symmetric]]
  have "DecodeBitmapIndexFromBinaryString (is @ vs) w h
        = ivtovec_u16 (replicate ((w div 4) * (h div 4)) 0) is vs"
    unfolding DecodeBitmapIndexFromBinaryString_def Let_def half new_ivtovec_u16_def dh ..
  also have "\<dots> = naive_ivtovec (replicate ((w div 4) * (h div 4)) 0) is vs (length is)"
    using assms by (rule ivtovec_u16_refines_naive_aux)
  finally show ?thesis by (simp add: naive_ivtovec_def)
qed

lemma fold_update_nth:
  "j < length d \<Longrightarrow>
   fold (\<lambda>i d. d[i := g ! i]) xs d ! j = (if j \<in> set xs then g ! j else d ! j)"
  by (induction xs arbitrary: d) (auto simp: nth_list_update)

lemma fold_update_length: "length (fold (\<lambda>i d. d[i := g ! i]) xs d) = length d"
  by (induction xs arbitrary: d) auto

text \<open>
  C7 (as the code computes it).  The index string holds each index as one 16-bit code
  unit, so the round trip reproduces every grid of at most 65536 words (tiles up to
  1024 by 1024 pixels), whatever the number of nonzero words.
\<close>

theorem iv_roundtrip:
  assumes len: "length g = (w div 4) * (h div 4)" and small: "length g \<le> 65536"
  shows "\<exists>is vs. c_DecomposeIndexIntoIV (Some g) = Some (is, vs)
                 \<and> DecodeBitmapIndexFromBinaryString (is @ vs) w h = g"
proof -
  define idxs where "idxs = filter (\<lambda>i. g ! i \<noteq> 0) [0..<length g]"
  define "is" :: "u16 list" where "is = map word_of_nat idxs"
  define vs where "vs = map ((!) g) idxs"
  have dec: "c_DecomposeIndexIntoIV (Some g) = Some (is, vs)"
    by (simp add: c_DecomposeIndexIntoIV_eq is_def vs_def idxs_def)
  have in_idxs: "j \<in> set idxs \<longleftrightarrow> j < length g \<and> g ! j \<noteq> 0" for j
    by (auto simp: idxs_def)
  have un: "unat (word_of_nat j :: u16) = j" if "j \<in> set idxs" for j
  proof -
    from that small have "j < 65536" by (simp add: in_idxs)
    then show ?thesis by (simp add: unat_of_nat take_bit_nat_eq_self)
  qed
  have "DecodeBitmapIndexFromBinaryString (is @ vs) w h
        = fold (\<lambda>i d. d[unat (is ! i) := vs ! i]) [0..<length idxs] (replicate (length g) 0)"
    using DecodeBitmapIndexFromBinaryString_eq [of "is" vs w h]
    by (simp add: is_def vs_def len)
  also have "\<dots> = fold (\<lambda>i d. d[idxs ! i := g ! (idxs ! i)]) [0..<length idxs]
                      (replicate (length g) 0)"
    by (intro fold_cong) (auto simp: is_def vs_def un)
  also have "\<dots> = fold (\<lambda>j d. d[j := g ! j]) (map ((!) idxs) [0..<length idxs])
                      (replicate (length g) 0)"
    by (simp add: fold_map comp_def)
  also have "\<dots> = fold (\<lambda>j d. d[j := g ! j]) idxs (replicate (length g) 0)"
    by (simp add: map_nth)
  also have "\<dots> = g"
  proof (rule nth_equalityI)
    show "length (fold (\<lambda>j d. d[j := g ! j]) idxs (replicate (length g) 0)) = length g"
      by (simp add: fold_update_length)
  next
    fix j
    assume "j < length (fold (\<lambda>j d. d[j := g ! j]) idxs (replicate (length g) 0))"
    then have j: "j < length g" by (simp add: fold_update_length)
    then show "fold (\<lambda>j d. d[j := g ! j]) idxs (replicate (length g) 0) ! j = g ! j"
      by (simp add: fold_update_nth in_idxs)
  qed
  finally show ?thesis using dec by blast
qed

theorem iv_roundtrip_witness:
  "\<exists>is vs. c_DecomposeIndexIntoIV (Some [0, 5, 0, 1024]) = Some (is, vs)
           \<and> DecodeBitmapIndexFromBinaryString (is @ vs) 8 8 = [0, 5, 0, 1024]"
  using iv_roundtrip [of "[0, 5, 0, 1024]" 8 8] by simp


lemma filter_single_nonzero:
  assumes "v \<noteq> (0 :: u16)"
  shows "filter (\<lambda>i. (replicate a 0 @ [v] @ replicate b 0) ! i \<noteq> 0) [0..<a + 1 + b] = [a]"
proof -
  let ?g = "replicate a 0 @ [v] @ replicate b 0"
  have "[0..<a + 1 + b] = [0..<a + 1] @ [a + 1..<a + 1 + b]"
    by (rule upt_add_eq_append) simp
  then have split: "[0..<a + 1 + b] = [0..<a] @ [a] @ [a + 1..<a + 1 + b]"
    by simp
  have lo: "filter (\<lambda>i. ?g ! i \<noteq> 0) [0..<a] = []"
    by (rule filter_False) (auto simp: nth_append)
  have hi: "filter (\<lambda>i. ?g ! i \<noteq> 0) [a + 1..<a + 1 + b] = []"
  proof (rule filter_False, rule ballI)
    fix i
    assume "i \<in> set [a + 1..<a + 1 + b]"
    then have i: "a + 1 \<le> i" "i < a + 1 + b" by auto
    then obtain j where j: "i = a + 1 + j" "j < b"
      by (metis add_less_cancel_left le_Suc_ex)
    have "?g ! (a + 1 + j) = (replicate b (0::u16)) ! j"
      by (simp add: nth_append)
    also have "\<dots> = 0" using j by simp
    finally show "\<not> ?g ! i \<noteq> 0" using j by simp
  qed
  have mid: "?g ! a = v" by (simp add: nth_append)
  have "filter (\<lambda>i. ?g ! i \<noteq> 0) [a] = [a]" using mid assms by simp
  then show ?thesis
    unfolding split filter_append lo hi by simp
qed

lemma count_list_replicate_self: "count_list (replicate n x) x = n"
  by (induction n) simp_all

text \<open>
  C7 as stated fails on larger tiles.  The grid of a 2048 by 2048 tile has 262144 words,
  all but one of them zero (its length less the number of zero words is 1, at most 4096);
  with the single pixel (0, 512) set, its only nonzero word is at index 65536, which the
  index string stores as code unit 0, and reconstruction puts the word at index 0.
\<close>

theorem iv_roundtrip_large_grid:
  "length (replicate 65536 0 @ [1 :: u16] @ replicate 196607 0)
     - count_list (replicate 65536 0 @ [1 :: u16] @ replicate 196607 0) 0 \<le> 4096
   \<and> length (replicate 65536 0 @ [1 :: u16] @ replicate 196607 0) = (2048 div 4) * (2048 div 4)
   \<and> c_DecomposeIndexIntoIV (Some (replicate 65536 0 @ [1] @ replicate 196607 0))
       = Some ([0], [1])
   \<and> DecodeBitmapIndexFromBinaryString ([0] @ [1]) 2048 2048
       \<noteq> replicate 65536 0 @ [1] @ replicate 196607 0"
proof -
  let ?g = "replicate 65536 0 @ [1 :: u16] @ replicate 196607 0"
  have len: "length ?g = 65536 + 1 + 196607" by simp
  have nz: "length ?g - count_list ?g 0 \<le> 4096"
    by (simp add: count_list_replicate_self)
  have dims: "length ?g = (2048 div 4) * (2048 div 4)" by simp
  have idxs: "filter (\<lambda>i. ?g ! i \<noteq> 0) [0..<length ?g] = [65536]"
    unfolding len by (rule filter_single_nonzero) simp
  have g_at: "?g ! 65536 = 1" by (simp add: nth_append)
  have w0: "(word_of_nat 65536 :: u16) = 0" by simp
  have dec: "c_DecomposeIndexIntoIV (Some ?g) = Some ([0], [1])"
    unfolding c_DecomposeIndexIntoIV_eq idxs using g_at w0 by simp
  have "DecodeBitmapIndexFromBinaryString ([0] @ [1]) 2048 2048
        = (replicate ((2048 div 4) * (2048 div 4)) 0)[0 := 1]"
    using DecodeBitmapIndexFromBinaryString_eq [of "[0]" "[1]" 2048 2048] by simp
  then have "DecodeBitmapIndexFromBinaryString ([0] @ [1]) 2048 2048 ! 0 = 1"
    by simp
  moreover have "?g ! 0 = 0" by (simp add: nth_append)
  ultimately have "DecodeBitmapIndexFromBinaryString ([0] @ [1]) 2048 2048 \<noteq> ?g"
    by (metis zero_neq_one)
  with nz dims dec show ?thesis by blast
qed

section \<open>The packed bitmap of a raster\<close>

lemma fold_counter:
  "fold (\<lambda>i (d, c). (G i c d, c + step)) [0..<m] (d0, c0 :: nat)
   = (fold (\<lambda>i d. G i (c0 + i * step) d) [0..<m] d0, c0 + m * step)"
  by (induction m) (simp_all add: add.assoc)

lemma fold_grid:
  assumes "0 < bw"
  shows "fold (\<lambda>r d. fold (\<lambda>k d. d[r * bw + k := V r k]) [0..<bw] d) [0..<bh] d0
         = fold (\<lambda>j d. d[j := V (j div bw) (j mod bw)]) [0..<bh * bw] d0"
proof (induction bh)
  case 0
  show ?case by simp
next
  case (Suc bh)
  have "[0..<Suc bh * bw] = [0..<bh * bw] @ map (\<lambda>k. bh * bw + k) [0..<bw]"
  proof -
    have "[0..<bh * bw + bw] = [0..<bh * bw] @ [bh * bw..<bh * bw + bw]"
      by (rule upt_add_eq_append) simp
    moreover have "[bh * bw..<bh * bw + bw] = map (\<lambda>k. bh * bw + k) [0..<bw]"
      by (simp add: map_add_upt add.commute)
    ultimately show ?thesis by (simp add: add.commute)
  qed
  moreover have "fold (\<lambda>j d. d[j := V (j div bw) (j mod bw)]) (map (\<lambda>k. bh * bw + k) [0..<bw]) d
                 = fold (\<lambda>k d. d[bh * bw + k := V bh k]) [0..<bw] d" for d
    unfolding fold_map comp_def using assms by (intro fold_cong) auto
  ultimately show ?case using Suc by simp
qed

lemma cell_row_bits:
  "fold (\<lambda>k (cellValue :: u16, idxCount).
           (if T k then cellValue OR push_bit idxCount 1 else cellValue, idxCount + 1))
        [0..<m] (cv0, ic0) = (cv, ic)
   \<Longrightarrow> ic = ic0 + m \<and>
       (\<forall>n. bit cv n \<longleftrightarrow> bit cv0 n \<or> (n < 16 \<and> ic0 \<le> n \<and> n < ic0 + m \<and> T (n - ic0)))"
proof (induction m arbitrary: cv ic)
  case 0
  then show ?case by auto
next
  case (Suc m)
  obtain cv1 ic1 where st: "fold (\<lambda>k (cellValue :: u16, idxCount).
           (if T k then cellValue OR push_bit idxCount 1 else cellValue, idxCount + 1))
        [0..<m] (cv0, ic0) = (cv1, ic1)"
    by (cases "fold (\<lambda>k (cellValue :: u16, idxCount).
           (if T k then cellValue OR push_bit idxCount 1 else cellValue, idxCount + 1))
        [0..<m] (cv0, ic0)") auto
  from Suc.IH [OF st] have ic1: "ic1 = ic0 + m"
    and b1: "\<And>n. bit cv1 n \<longleftrightarrow> bit cv0 n \<or> (n < 16 \<and> ic0 \<le> n \<and> n < ic0 + m \<and> T (n - ic0))"
    by auto
  from Suc.prems st have cv: "cv = (if T m then cv1 OR push_bit ic1 1 else cv1)"
    and ic: "ic = ic1 + 1" by auto
  have "bit cv n \<longleftrightarrow> bit cv0 n \<or> (n < 16 \<and> ic0 \<le> n \<and> n < ic0 + Suc m \<and> T (n - ic0))" for n
  proof (cases "n = ic0 + m")
    case True
    then show ?thesis
      using b1 [of n] by (auto simp: cv ic1 bit_or_iff bit_exp_iff)
  next
    case False
    then have "n < ic0 + Suc m \<longleftrightarrow> n < ic0 + m" by auto
    with False show ?thesis
      using b1 [of n] by (auto simp: cv ic1 bit_or_iff bit_exp_iff)
  qed
  then show ?case using ic ic1 by simp
qed

lemma cell_rows_bits:
  "fold (\<lambda>i st. fold (\<lambda>k (cellValue :: u16, idxCount).
                       (if T i k then cellValue OR push_bit idxCount 1 else cellValue,
                        idxCount + 1)) [0..<4] st)
        [0..<m] (cv0, ic0) = (cv, ic)
   \<Longrightarrow> ic = ic0 + 4 * m \<and>
       (\<forall>n. bit cv n \<longleftrightarrow>
              bit cv0 n \<or> (n < 16 \<and> ic0 \<le> n \<and> n < ic0 + 4 * m
                            \<and> T ((n - ic0) div 4) ((n - ic0) mod 4)))"
proof (induction m arbitrary: cv ic)
  case 0
  then show ?case by auto
next
  case (Suc m)
  let ?row = "\<lambda>i st. fold (\<lambda>k (cellValue :: u16, idxCount).
                       (if T i k then cellValue OR push_bit idxCount 1 else cellValue,
                        idxCount + 1)) [0..<4] st"
  obtain cv1 ic1 where st: "fold ?row [0..<m] (cv0, ic0) = (cv1, ic1)"
    by (cases "fold ?row [0..<m] (cv0, ic0)") auto
  from Suc.IH [OF st] have ic1: "ic1 = ic0 + 4 * m"
    and b1: "\<And>n. bit cv1 n \<longleftrightarrow> bit cv0 n \<or> (n < 16 \<and> ic0 \<le> n \<and> n < ic0 + 4 * m
                            \<and> T ((n - ic0) div 4) ((n - ic0) mod 4))"
    by auto
  from Suc.prems st have "?row m (cv1, ic1) = (cv, ic)" by simp
  from cell_row_bits [OF this] have ic: "ic = ic1 + 4"
    and b2: "\<And>n. bit cv n \<longleftrightarrow> bit cv1 n \<or> (n < 16 \<and> ic1 \<le> n \<and> n < ic1 + 4 \<and> T m (n - ic1))"
    by auto
  have "bit cv n \<longleftrightarrow> bit cv0 n \<or> (n < 16 \<and> ic0 \<le> n \<and> n < ic0 + 4 * Suc m
                            \<and> T ((n - ic0) div 4) ((n - ic0) mod 4))" for n
  proof (cases "ic1 \<le> n \<and> n < ic1 + 4")
    case True
    then obtain j where j: "n = ic0 + 4 * m + j" "j < 4"
      unfolding ic1 by (metis add_less_cancel_left le_Suc_ex)
    then have dm: "(n - ic0) div 4 = m" "(n - ic0) mod 4 = j" "n - ic1 = j"
      by (simp_all add: ic1)
    have "\<not> n < ic0 + 4 * m" using j by simp
    then show ?thesis
      using b1 [of n] b2 [of n] True dm j by (auto simp: ic1)
  next
    case False
    then have "n < ic0 + 4 * Suc m \<longleftrightarrow> n < ic0 + 4 * m \<or> n < ic0"
      unfolding ic1 by auto
    with False show ?thesis
      using b1 [of n] b2 [of n] by (auto simp: ic1)
  qed
  then show ?case using ic ic1 by simp
qed

lemma GetBitmapCellFromPlanarTile_u16_bits:
  assumes "length src = bpr * h"
  shows "\<exists>cv. GetBitmapCellFromPlanarTile_u16 src x y off 4 t w h bpr = Some cv
              \<and> (\<forall>n. bit cv n \<longleftrightarrow>
                     n < 16 \<and> js_gt (ta_get src ((y + n div 4) * w * 4 + (x + (n mod 4) * 4) + off))
                                 (t - 1))"
proof -
  let ?T = "\<lambda>i k. js_gt (ta_get src ((y + i) * w * 4 + (x + k * 4) + off)) (t - 1)"
  let ?row = "\<lambda>i st. fold (\<lambda>k (cellValue :: u16, idxCount).
                       (if ?T i k then cellValue OR push_bit idxCount 1 else cellValue,
                        idxCount + 1)) [0..<4] st"
  have cnt: "(x + 4 * 4 - x + 4 - 1) div 4 = (4 :: nat)" by simp
  have ys: "[y..<y + 4] = map (\<lambda>i. y + i) [0..<4]"
    by (simp add: map_add_upt add.commute)
  obtain cv ic where st: "fold ?row [0..<4] (0, 0) = (cv, ic)"
    by (cases "fold ?row [0..<4] (0 :: u16, 0 :: nat)") auto
  have "GetBitmapCellFromPlanarTile_u16 src x y off 4 t w h bpr
        = Some (fst (fold ?row [0..<4] (0, 0)))"
    unfolding GetBitmapCellFromPlanarTile_u16_def Let_def for_loop_1 for_loop_steps_from cnt ys
      fold_map comp_def
    using assms by simp
  then have "GetBitmapCellFromPlanarTile_u16 src x y off 4 t w h bpr = Some cv"
    using st by simp
  moreover from cell_rows_bits [OF st]
  have "\<forall>n. bit cv n \<longleftrightarrow> n < 16 \<and> ?T (n div 4) (n mod 4)" by auto
  ultimately show ?thesis by blast
qed
lemma fold_skip: "fold (\<lambda>r d. d) xs s = s"
  by (induction xs) auto

lemma GetBitmapFromRGBA8888Tile_plain:
  assumes w4: "4 dvd w" and h4: "4 dvd h" and len: "length src = w * h * 4"
    and small: "w * h * 4 < 2 ^ 31"
  shows "GetBitmapFromRGBA8888Tile (Some src) False False ch t ut w h
         = Inr (Some (map (\<lambda>j. or_zero (GetBitmapCellFromPlanarTile_u16 src
                                 (16 * (j mod (w div 4))) (4 * (j div (w div 4))) ch 4 t w h (w * 4)))
                        [0..<(h div 4) * (w div 4)]))"
proof -
  let ?bw = "w div 4" and ?bh = "h div 4"
  let ?V = "\<lambda>r k. or_zero (GetBitmapCellFromPlanarTile_u16 src (16 * k) (4 * r) ch 4 t w h (w * 4))"
  have shl: "js_shl (int (w * h)) 2 = int (length src)"
  proof -
    from small have "int (w * h * 4) < int (2 ^ 31)" by (simp only: of_nat_less_iff)
    then have "int (w * h) * 4 < 2 ^ 31" by simp
    moreover have "0 \<le> int (w * h) * 4" by simp
    ultimately show ?thesis
      by (simp add: js_shl_def ToInt32_def Let_def len)
  qed
  have cw: "(w * 4 + 16 - 1) div 16 = ?bw" using w4 by (elim dvdE) simp
  have ch: "(h + 4 - 1) div 4 = ?bh" using h4 by (elim dvdE) simp
  have "GetBitmapFromRGBA8888Tile (Some src) False False ch t ut w h
        = Inr (Some (fold (\<lambda>r d. fold (\<lambda>k d. d[r * ?bw + k := ?V r k]) [0..<?bw] d) [0..<?bh]
                      (replicate (?bw * ?bh) 0)))"
    unfolding GetBitmapFromRGBA8888Tile_def Let_def for_loop_steps cw ch option.case
      shl [symmetric] if_True if_False refl fold_counter fst_conv
    by (simp add: mult.commute)
  also have "fold (\<lambda>r d. fold (\<lambda>k d. d[r * ?bw + k := ?V r k]) [0..<?bw] d) [0..<?bh]
                      (replicate (?bw * ?bh) 0)
             = map (\<lambda>j. ?V (j div ?bw) (j mod ?bw)) [0..<?bh * ?bw]"
  proof (cases "0 < ?bw")
    case True
    then show ?thesis
      by (simp add: fold_grid fold_store_upt mult.commute)
  next
    case False
    then show ?thesis by (simp add: fold_skip)
  qed
  finally show ?thesis .
qed
lemma ToInt32_small: "0 \<le> v \<Longrightarrow> v < 2 ^ 31 \<Longrightarrow> ToInt32 v = v"
  by (simp add: ToInt32_def Let_def)

lemma js_shr_u_2: "x < 2 ^ 30 \<Longrightarrow> js_shr_u (int x) 2 = int (x div 4)"
proof -
  assume "x < 2 ^ 30"
  then have "int x < 2 ^ 30" by (metis of_nat_less_iff of_nat_numeral of_nat_power)
  then have "int x mod 2 ^ 32 = int x" by simp
  then show ?thesis by (simp add: js_shr_u_def ToUint32_def zdiv_int)
qed

lemma js_shl_2: "x < 2 ^ 29 \<Longrightarrow> js_shl (int x) 2 = int (4 * x)"
proof -
  assume "x < 2 ^ 29"
  then have "int x < 2 ^ 29" by (metis of_nat_less_iff of_nat_numeral of_nat_power)
  then have "int x * 4 < 2 ^ 31" by simp
  then show ?thesis by (simp add: js_shl_def ToInt32_small)
qed

lemma js_shl_1: "e < 16 \<Longrightarrow> js_shl 1 (int e) = 2 ^ e"
proof -
  assume e: "e < 16"
  then have "(2::int) ^ e < 2 ^ 16" by (intro power_strict_increasing) simp_all
  then have "(2::int) ^ e < 2 ^ 31" by simp
  moreover have "int e mod 32 = int e" using e by simp
  ultimately show ?thesis by (simp add: js_shl_def ToInt32_small)
qed

lemma js_and_bit:
  assumes "e < 16"
  shows "js_and (uint (c :: u16)) (2 ^ e) \<noteq> 0 \<longleftrightarrow> bit c e"
proof -
  have "uint c < 2 ^ 16" using uint_bounded [of c] by simp
  then have "uint c < 2 ^ 31" by simp
  then have c: "ToInt32 (uint c) = uint c" by (simp add: ToInt32_small)
  have "(2::int) ^ e < 2 ^ 16" using assms by (intro power_strict_increasing) simp_all
  then have "(2::int) ^ e < 2 ^ 31" by simp
  then have e: "ToInt32 (2 ^ e) = 2 ^ e" by (simp add: ToInt32_small)
  show ?thesis
    unfolding js_and_def c e using assms by (simp add: and_exp_eq_0_iff_not_bit bit_uint_iff)
qed

lemma c_GetBit_eq:
  assumes x: "x < 2 ^ 30" and y: "y < 2 ^ 30"
  shows "c_GetBit d (int x) (int y) w h
         = (case ta_get d ((y div 4) * (w div 4) + x div 4) of
              None \<Rightarrow> False
            | Some c \<Rightarrow> bit c (4 * (y mod 4) + x mod 4))"
proof -
  have x4: "x div 4 < 2 ^ 29" using x by simp
  have y4: "y div 4 < 2 ^ 29" using y by simp
  have xc: "int x - js_shl (js_shr_u (int x) 2) 2 = int (x mod 4)"
    using x x4 by (simp add: js_shr_u_2 js_shl_2 minus_mult_div_eq_mod [symmetric])
  have yc0: "int y - js_shl (js_shr_u (int y) 2) 2 = int (y mod 4)"
    using y y4 by (simp add: js_shr_u_2 js_shl_2 minus_mult_div_eq_mod [symmetric])
  have yc: "js_shl (int (y mod 4)) 2 = int (4 * (y mod 4))"
    by (rule js_shl_2) (simp add: less_le_trans [OF mod_less_divisor])
  have e: "4 * (y mod 4) + x mod 4 < 16"
  proof -
    have "y mod 4 < 4" "x mod 4 < 4" by simp_all
    then show ?thesis by linarith
  qed
  have bit: "js_shl 1 (int (4 * (y mod 4)) + int (x mod 4)) = 2 ^ (4 * (y mod 4) + x mod 4)"
    using js_shl_1 [OF e] by simp
  have idx: "js_shr_u (int y) 2 * int (w div 4) + js_shr_u (int x) 2
             = int ((y div 4) * (w div 4) + x div 4)"
    using x y by (simp add: js_shr_u_2)
  have get: "ta_get_int d (int k) = ta_get d k" for k
    by (simp add: ta_get_int_def ta_get_def)
  show ?thesis
    unfolding c_GetBit_def c_GetBitReusingIdx_def Let_def xc yc0 yc bit idx get
    using js_and_bit [OF e] by (simp add: js_and_def ToInt32_def split: option.splits)
qed
lemma js_gt_pred: "js_gt v (t - 1) = js_ge v t"
  by (auto simp: js_gt_def js_ge_def split: option.splits)

lemma GetBit_of_bitmap_aux:
  assumes w4: "4 dvd w" and h4: "4 dvd h" and len: "length src = w * h * 4"
    and small: "w * h * 4 < 2 ^ 31"
  shows "\<exists>dest. GetBitmapFromRGBA8888Tile (Some src) False False ch t ut w h = Inr (Some dest)
           \<and> (\<forall>x<w. \<forall>y<h. c_GetBit dest (int x) (int y) w h
                              = js_ge (ta_get src (4 * (y * w + x) + ch)) t)"
proof -
  let ?bw = "w div 4" and ?bh = "h div 4"
  let ?cell = "\<lambda>j. GetBitmapCellFromPlanarTile_u16 src (16 * (j mod ?bw)) (4 * (j div ?bw))
                      ch 4 t w h (w * 4)"
  define dest where "dest = map (\<lambda>j. or_zero (?cell j)) [0..<?bh * ?bw]"
  have built: "GetBitmapFromRGBA8888Tile (Some src) False False ch t ut w h = Inr (Some dest)"
    unfolding dest_def using assms by (rule GetBitmapFromRGBA8888Tile_plain)
  have "c_GetBit dest (int x) (int y) w h = js_ge (ta_get src (4 * (y * w + x) + ch)) t"
    if x: "x < w" and y: "y < h" for x y
  proof -
    have wh: "w * h < 2 ^ 29" using small by (simp add: mult.commute)
    have "w \<le> w * h" using y by (cases h) auto
    with x have "x < w * h" by (rule less_le_trans)
    then have "x < 2 ^ 29" using wh by (rule less_trans)
    then have xs: "x < 2 ^ 30" by simp
    have "h \<le> w * h" using x by (cases w) auto
    with y have "y < w * h" by (rule less_le_trans)
    then have "y < 2 ^ 29" using wh by (rule less_trans)
    then have ys: "y < 2 ^ 30" by simp
    have bw: "0 < ?bw" and xb: "x div 4 < ?bw"
      using w4 x by (auto elim!: dvdE)
    have yb: "y div 4 < ?bh" using h4 y by (auto elim!: dvdE)
    define k where "k = (y div 4) * ?bw + x div 4"
    have "k < (y div 4) * ?bw + ?bw" using xb by (simp add: k_def)
    also have "\<dots> = Suc (y div 4) * ?bw" by simp
    also have "\<dots> \<le> ?bh * ?bw" using yb by (intro mult_le_mono1) simp
    finally have kb: "k < ?bh * ?bw" .
    have kd: "k div ?bw = y div 4" and km: "k mod ?bw = x div 4"
      using xb by (simp_all add: k_def)
    from GetBitmapCellFromPlanarTile_u16_bits [of src "w * 4" h "16 * (x div 4)" "4 * (y div 4)" ch t w]
    obtain cv where cv: "GetBitmapCellFromPlanarTile_u16 src (16 * (x div 4)) (4 * (y div 4))
                           ch 4 t w h (w * 4) = Some cv"
      and bits: "\<And>n. bit cv n \<longleftrightarrow>
                     n < 16 \<and> js_gt (ta_get src ((4 * (y div 4) + n div 4) * w * 4
                                                   + (16 * (x div 4) + (n mod 4) * 4) + ch)) (t - 1)"
      using len by auto
    have at: "ta_get dest k = Some cv"
      using kb by (simp add: ta_get_def dest_def kd km cv or_zero_def)
    define n where "n = 4 * (y mod 4) + x mod 4"
    have n16: "n < 16"
    proof -
      have "y mod 4 < 4" "x mod 4 < 4" by simp_all
      then show ?thesis unfolding n_def by linarith
    qed
    have nd: "n div 4 = y mod 4" and nm: "n mod 4 = x mod 4"
      by (simp_all add: n_def)
    have idx: "(4 * (y div 4) + n div 4) * w * 4 + (16 * (x div 4) + (n mod 4) * 4) + ch
               = 4 * (y * w + x) + ch"
    proof -
      have "(4 * a + b) * w * 4 + (16 * c + d * 4) + ch
            = 4 * ((4 * a + b) * w + (4 * c + d)) + ch" for a b c d :: nat
        by (simp add: algebra_simps)
      then have e1: "(4 * (y div 4) + y mod 4) * w * 4 + (16 * (x div 4) + (x mod 4) * 4) + ch
                = 4 * ((4 * (y div 4) + y mod 4) * w + (4 * (x div 4) + x mod 4)) + ch" .
      have e2: "4 * (y div 4) + y mod 4 = y" by simp
      have e3: "4 * (x div 4) + x mod 4 = x" by simp
      have "(4 * (y div 4) + n div 4) * w * 4 + (16 * (x div 4) + (n mod 4) * 4) + ch
            = 4 * ((4 * (y div 4) + y mod 4) * w + (4 * (x div 4) + x mod 4)) + ch"
        unfolding nd nm by (rule e1)
      also have "\<dots> = 4 * (y * w + x) + ch" by (simp only: e2 e3)
      finally show ?thesis .
    qed
    have "c_GetBit dest (int x) (int y) w h = bit cv n"
      using c_GetBit_eq [OF xs ys, of dest w h] at by (simp add: k_def n_def)
    also have "\<dots> = js_ge (ta_get src (4 * (y * w + x) + ch)) t"
      using bits [of n] n16 by (simp only: idx js_gt_pred) simp
    finally show ?thesis .
  qed
  with built show ?thesis by blast
qed
lemma single_pixel_bitmap_aux:
  assumes len: "length src = 256 * 256 * 4" and ch: "ch < 4"
    and hot: "src ! (4 * (10 * 256 + 10) + ch) = 200"
    and cold: "\<forall>p<65536. p \<noteq> 10 * 256 + 10 \<longrightarrow> src ! (4 * p + ch) = 0"
  shows "\<exists>dest. GetBitmapFromRGBA8888Tile (Some src) False False ch 1 ut 256 256 = Inr (Some dest)
           \<and> length dest = 4096 \<and> dest ! 130 = 1024
           \<and> (\<forall>k<4096. k \<noteq> 130 \<longrightarrow> dest ! k = 0)"
proof -
  let ?cell = "\<lambda>j. GetBitmapCellFromPlanarTile_u16 src (16 * (j mod 64)) (4 * (j div 64))
                      ch 4 1 256 256 (256 * 4)"
  define dest where "dest = map (\<lambda>j. or_zero (?cell j)) [0..<64 * 64]"
  have "GetBitmapFromRGBA8888Tile (Some src) False False ch 1 ut 256 256
        = Inr (Some (map (\<lambda>j. or_zero (GetBitmapCellFromPlanarTile_u16 src
                                 (16 * (j mod (256 div 4))) (4 * (j div (256 div 4))) ch 4 1
                                 256 256 (256 * 4)))
                        [0..<(256 div 4) * (256 div 4)]))"
    by (rule GetBitmapFromRGBA8888Tile_plain) (simp_all add: len)
  then have built: "GetBitmapFromRGBA8888Tile (Some src) False False ch 1 ut 256 256
                    = Inr (Some dest)"
    by (simp add: dest_def)
  have pixel: "js_gt (ta_get src (4 * (r * 256 + c) + ch)) 0 \<longleftrightarrow> r = 10 \<and> c = 10"
    if r: "r < 256" and c: "c < 256" for r c
  proof -
    have p: "r * 256 + c < 65536" using r c by simp
    then have "4 * (r * 256 + c) + ch < length src" using ch len by simp
    then have get: "ta_get src (4 * (r * 256 + c) + ch) = Some (src ! (4 * (r * 256 + c) + ch))"
      by (simp add: ta_get_def)
    show ?thesis
    proof (cases "r = 10 \<and> c = 10")
      case True
      then show ?thesis using hot get by (simp add: js_gt_def)
    next
      case False
      then have "r * 256 + c \<noteq> 10 * 256 + 10" using c by presburger
      with cold p have "src ! (4 * (r * 256 + c) + ch) = 0" by blast
      with False get show ?thesis by (simp add: js_gt_def)
    qed
  qed
  have word: "or_zero (?cell k) = (if k = 130 then 1024 else 0)" if k: "k < 4096" for k
  proof -
    from GetBitmapCellFromPlanarTile_u16_bits [of src "256 * 4" 256 "16 * (k mod 64)"
        "4 * (k div 64)" ch 1 256]
    obtain cv where cv: "?cell k = Some cv"
      and bits: "\<And>n. bit cv n \<longleftrightarrow>
                     n < 16 \<and> js_gt (ta_get src ((4 * (k div 64) + n div 4) * 256 * 4
                                                   + (16 * (k mod 64) + (n mod 4) * 4) + ch)) (1 - 1)"
      using len by auto
    have bit_n: "bit cv n \<longleftrightarrow> k = 130 \<and> n = 10" for n
    proof (cases "n < 16")
      case True
      have kd: "k div 64 < 64" using k by (simp add: div_less_iff_less_mult)
      have km: "k mod 64 < 64" by simp
      have nd: "n div 4 < 4" using True by (simp add: div_less_iff_less_mult)
      have nm: "n mod 4 < 4" by simp
      have r: "4 * (k div 64) + n div 4 < 256" using kd nd by linarith
      have c: "4 * (k mod 64) + n mod 4 < 256"
      proof -
        show ?thesis using km nm by linarith
      qed
      have "(4 * a + b) * 256 * 4 + (16 * d + e * 4) + ch
            = 4 * ((4 * a + b) * 256 + (4 * d + e)) + ch" for a b d e :: nat
        by (simp add: algebra_simps)
      then have idx: "(4 * (k div 64) + n div 4) * 256 * 4 + (16 * (k mod 64) + (n mod 4) * 4) + ch
                      = 4 * ((4 * (k div 64) + n div 4) * 256 + (4 * (k mod 64) + n mod 4)) + ch" .
      have "bit cv n \<longleftrightarrow> 4 * (k div 64) + n div 4 = 10 \<and> 4 * (k mod 64) + n mod 4 = 10"
        using bits [of n] True pixel [OF r c] by (simp only: idx) simp
      also have "\<dots> \<longleftrightarrow> (k div 64 = 2 \<and> k mod 64 = 2) \<and> (n div 4 = 2 \<and> n mod 4 = 2)"
      proof -
        have g: "b < 4 \<Longrightarrow> 4 * a + b = 10 \<longleftrightarrow> a = 2 \<and> b = 2" for a b :: nat
          by arith
        show ?thesis using g [OF nd] g [OF nm] by blast
      qed
      also have "k div 64 = 2 \<and> k mod 64 = 2 \<longleftrightarrow> k = 130"
      proof
        assume "k div 64 = 2 \<and> k mod 64 = 2"
        then show "k = 130" using div_mult_mod_eq [of k 64] by simp
      qed simp
      also have "n div 4 = 2 \<and> n mod 4 = 2 \<longleftrightarrow> n = 10"
      proof
        assume "n div 4 = 2 \<and> n mod 4 = 2"
        then show "n = 10" using div_mult_mod_eq [of n 4] by simp
      qed simp
      finally show ?thesis .
    next
      case False
      then show ?thesis using bits [of n] by simp
    qed
    have "cv = (if k = 130 then 1024 else 0)"
    proof (rule bit_eqI)
      fix n
      have "(1024 :: u16) = 2 ^ 10" by simp
      then have "bit (1024 :: u16) n \<longleftrightarrow> n = 10"
        by (simp only: bit_exp_iff) auto
      then show "bit cv n \<longleftrightarrow> bit (if k = 130 then 1024 else 0 :: u16) n"
        using bit_n [of n] by auto
    qed
    then show ?thesis unfolding cv or_zero_def by simp
  qed
  have "length dest = 4096" by (simp add: dest_def)
  moreover have "dest ! 130 = 1024" using word [of 130] by (simp add: dest_def)
  moreover have "\<forall>k<4096. k \<noteq> 130 \<longrightarrow> dest ! k = 0"
    using word by (simp add: dest_def)
  ultimately show ?thesis using built by blast
qed
text \<open>
  C3 (as the code computes it).  For a tile whose width and height are multiples of 4, a
  raster of length \<open>w * h * 4\<close> below \<open>2 ^ 31\<close>, and both recovery passes disabled,
  \<open>GetBit(x, y)\<close> on the bitmap built by \<open>GetBitmapFromRGBA8888Tile\<close> equals
  \<open>src[4 * (y * w + x) + ch_offset] >= alpha_threshold\<close> for every pixel of the tile.
  In particular a 256 by 256 raster whose chosen channel is 200 at pixel (10, 10) and 0
  elsewhere, with threshold 1, gives a grid of 4096 words whose only nonzero word is
  word 130, with value 1024.
\<close>

theorem GetBit_matches_raster:
  "(4 dvd w \<and> 4 dvd h \<and> length src = w * h * 4 \<and> w * h * 4 < 2 ^ 31
    \<longrightarrow> (\<exists>dest. GetBitmapFromRGBA8888Tile (Some src) False False ch_offset alpha_threshold
                   unshd_threshold w h = Inr (Some dest)
               \<and> (\<forall>x<w. \<forall>y<h. c_GetBit dest (int x) (int y) w h
                     = js_ge (ta_get src (4 * (y * w + x) + ch_offset)) alpha_threshold)))
   \<and> (length src' = 256 * 256 * 4 \<and> ch' < 4 \<and> src' ! (4 * (10 * 256 + 10) + ch') = 200
      \<and> (\<forall>p<65536. p \<noteq> 10 * 256 + 10 \<longrightarrow> src' ! (4 * p + ch') = 0)
    \<longrightarrow> (\<exists>dest. GetBitmapFromRGBA8888Tile (Some src') False False ch' 1 unshd_threshold'
                   256 256 = Inr (Some dest)
               \<and> length dest = 4096 \<and> dest ! 130 = 1024
               \<and> (\<forall>k<4096. k \<noteq> 130 \<longrightarrow> dest ! k = 0)))"
  using GetBit_of_bitmap_aux [of w h src ch_offset alpha_threshold unshd_threshold]
    single_pixel_bitmap_aux [of src' ch' unshd_threshold']
  by blast

theorem GetBit_matches_raster_witness:
  "(\<exists>dest. GetBitmapFromRGBA8888Tile
             (Some [0, 0, 0, 0,  0, 0, 0, 9,  0, 0, 0, 0,  0, 0, 0, 0,
                    0, 0, 0, 0,  0, 0, 0, 0,  0, 0, 0, 8,  0, 0, 0, 0,
                    0, 0, 0, 7,  0, 0, 0, 0,  0, 0, 0, 0,  0, 0, 0, 0,
                    0, 0, 0, 0,  0, 0, 0, 0,  0, 0, 0, 0,  0, 0, 0, 255])
             False False 3 8 1 4 4 = Inr (Some dest)
          \<and> (\<forall>x<4. \<forall>y<4. c_GetBit dest (int x) (int y) 4 4
                = js_ge (ta_get [0, 0, 0, 0,  0, 0, 0, 9,  0, 0, 0, 0,  0, 0, 0, 0,
                                 0, 0, 0, 0,  0, 0, 0, 0,  0, 0, 0, 8,  0, 0, 0, 0,
                                 0, 0, 0, 7,  0, 0, 0, 0,  0, 0, 0, 0,  0, 0, 0, 0,
                                 0, 0, 0, 0,  0, 0, 0, 0,  0, 0, 0, 0,  0, 0, 0, 255 :: u8]
                           (4 * (y * 4 + x) + 3)) 8))
   \<and> (\<exists>dest. GetBitmapFromRGBA8888Tile
               (Some (replicate 10283 0 @ [200] @ replicate 251860 0))
               False False 3 1 1 256 256 = Inr (Some dest)
            \<and> length dest = 4096 \<and> dest ! 130 = 1024
            \<and> (\<forall>k<4096. k \<noteq> 130 \<longrightarrow> dest ! k = 0))"
proof -
  let ?s = "[0, 0, 0, 0,  0, 0, 0, 9,  0, 0, 0, 0,  0, 0, 0, 0,
             0, 0, 0, 0,  0, 0, 0, 0,  0, 0, 0, 8,  0, 0, 0, 0,
             0, 0, 0, 7,  0, 0, 0, 0,  0, 0, 0, 0,  0, 0, 0, 0,
             0, 0, 0, 0,  0, 0, 0, 0,  0, 0, 0, 0,  0, 0, 0, 255 :: u8]"
  let ?r = "replicate 10283 0 @ [200 :: u8] @ replicate 251860 0"
  have h1: "4 dvd (4::nat) \<and> 4 dvd (4::nat) \<and> length ?s = 4 * 4 * 4 \<and> (4::nat) * 4 * 4 < 2 ^ 31"
    by simp
  have cold: "?r ! (4 * p + 3) = 0" if "p < 65536" "p \<noteq> 10 * 256 + 10" for p
  proof (cases "4 * p + 3 < 10283")
    case True
    then show ?thesis by (simp add: nth_append)
  next
    case False
    with that have "4 * p + 3 > 10283" by presburger
    then obtain j where j: "4 * p + 3 = 10284 + j"
      using less_iff_Suc_add [of 10283 "4 * p + 3"] by auto
    with that have "j < 251860" by simp
    have "?r ! (10284 + j) = replicate 251860 (0 :: u8) ! j"
      by (simp add: nth_append)
    then show ?thesis using j \<open>j < 251860\<close> by simp
  qed
  have a: "length ?r = 256 * 256 * 4" by simp
  have b: "?r ! (4 * (10 * 256 + 10) + 3) = 200" by (simp add: nth_append)
  have c: "(3::nat) < 4" by simp
  have h2: "length ?r = 256 * 256 * 4 \<and> (3::nat) < 4 \<and> ?r ! (4 * (10 * 256 + 10) + 3) = 200
            \<and> (\<forall>p<65536. p \<noteq> 10 * 256 + 10 \<longrightarrow> ?r ! (4 * p + 3) = 0)"
    by (intro conjI allI impI a b c cold)
  note T = GetBit_matches_raster [of 4 4 ?s 3 8 1 ?r 3 1]
  from mp [OF T [THEN conjunct1] h1] mp [OF T [THEN conjunct2] h2]
  show ?thesis by (rule conjI)
qed

text \<open>
  C3 as stated fails when the tile width is not a multiple of 4.  For a fully opaque
  6 by 4 raster the grid has the single word of the first four columns; pixel (4, 0) is
  data in the raster and \<open>GetBit(4, 0)\<close> is false.
\<close>

theorem GetBit_width_not_multiple_of_4:
  "GetBitmapFromRGBA8888Tile (Some (concat (replicate 24 [0, 0, 0, 255]))) False False 3 1 1 6 4
     = Inr (Some [65535])
   \<and> c_GetBit [65535] 4 0 6 4 = False
   \<and> js_ge (ta_get (concat (replicate 24 [0, 0, 0, 255 :: u8])) (4 * (0 * 6 + 4) + 3)) 1 = True"
  by code_simp

section \<open>Stroke recovery\<close>

lemma for_loop_skip: "for_loop i n d (\<lambda>k s. s) = (\<lambda>s. s)"
  by (rule ext) (simp add: for_loop_steps_from fold_skip)

text \<open>The horizontal pass reads and writes nothing: it returns the working buffer as is.\<close>

lemma RecoverXStrokeInRGBA8888Tile_noop:
  "RecoverXStrokeInRGBA8888Tile dest src ch_offset alpha_threshold w h = dest"
  by (simp add: RecoverXStrokeInRGBA8888Tile_def ta_get_at_def js_gt_def for_loop_skip)

text \<open>
  C6, the code at the documented example with stroke recovery enabled.  The diagonal and
  the vertical bleed pixels (2, 2) and (1, 2) are cleared and the data pixel (1, 1) stays
  set, but the horizontal bleed pixel (2, 1) stays set as well: the grid is
  \<open>[96, 0]\<close> (bits 5 and 6 of word 0), where clearing all three bleed pixels would give
  \<open>[32, 0]\<close>.
\<close>

theorem stroke_recovery_on_documented_example:
  "GetBitmapFromRGBA8888Tile (Some stroke_example) False False 3 1 1 8 4 = Inr (Some [1632, 0])
   \<and> GetBitmapFromRGBA8888Tile (Some stroke_example) False True 3 1 1 8 4 = Inr (Some [96, 0])
   \<and> c_GetBit [96, 0] 1 1 8 4 = True
   \<and> c_GetBit [96, 0] 2 1 8 4 = True
   \<and> c_GetBit [96, 0] 1 2 8 4 = False
   \<and> c_GetBit [96, 0] 2 2 8 4 = False"
  by code_simp

section \<open>The layer extent\<close>

lemma extent_edge_lower_props:
  assumes "length e = 16" and "length px = 8" and "edge < 16" and "zslot < 16"
    and "edge \<noteq> zslot" and "a < 8" and "b < 8"
  shows "length (extent_edge_lower e px edge zslot a b) = 16
         \<and> extent_edge_lower e px edge zslot a b ! edge \<le> e ! edge
         \<and> (extent_edge_lower e px edge zslot a b ! edge \<noteq> e ! edge
              \<or> extent_edge_lower e px edge zslot a b ! zslot \<noteq> e ! zslot
              \<longrightarrow> e ! zslot \<le> px ! 5)
         \<and> (\<forall>k. k \<noteq> edge \<and> k \<noteq> zslot \<longrightarrow> extent_edge_lower e px edge zslot a b ! k = e ! k)"
  using assms
  by (auto simp: extent_edge_lower_def ta_get_def u32_lt_def u32_ge_def or_zero_def Let_def
      nth_list_update)

lemma extent_edge_raise_props:
  assumes "length e = 16" and "length px = 8" and "edge < 16" and "zslot < 16"
    and "edge \<noteq> zslot" and "a < 8" and "b < 8"
  shows "length (extent_edge_raise e px edge zslot a b) = 16
         \<and> e ! edge \<le> extent_edge_raise e px edge zslot a b ! edge
         \<and> (extent_edge_raise e px edge zslot a b ! edge \<noteq> e ! edge
              \<or> extent_edge_raise e px edge zslot a b ! zslot \<noteq> e ! zslot
              \<longrightarrow> e ! zslot \<le> px ! 5)
         \<and> (\<forall>k. k \<noteq> edge \<and> k \<noteq> zslot \<longrightarrow> extent_edge_raise e px edge zslot a b ! k = e ! k)"
  using assms
  by (auto simp: extent_edge_raise_def ta_get_def u32_gt_def u32_ge_def or_zero_def Let_def
      nth_list_update)

lemma c_vMercXYZtoMercXYZ_u32_keeps:
  "length (c_vMercXYZtoMercXYZ_u32 v) = length v"
  "(c_vMercXYZtoMercXYZ_u32 v) ! 5 = v ! 5"
  by (simp_all add: c_vMercXYZtoMercXYZ_u32_def Let_def)

lemma c_vPixelExtentToMercExtent_u32_keeps:
  "length (c_vPixelExtentToMercExtent_u32 v w h) = length v"
  "(c_vPixelExtentToMercExtent_u32 v w h) ! 5 = v ! 5"
  by (simp_all add: c_vPixelExtentToMercExtent_u32_def Let_def c_vMercXYZtoMercXYZ_u32_keeps)
lemma extent_edge_lower_length [simp]:
  "length (extent_edge_lower e px edge zslot a b) = length e"
  by (simp add: extent_edge_lower_def Let_def)

lemma extent_edge_raise_length [simp]:
  "length (extent_edge_raise e px edge zslot a b) = length e"
  by (simp add: extent_edge_raise_def Let_def)

lemma extent_update_seeds:
  assumes "extent st = None \<or> (\<exists>e. extent st = Some e \<and> length e = 16)"
  shows "\<exists>e. extent (UpdateLayerExtentFromBitstorePixelExtent st px) = Some e \<and> length e = 16"
  using assms
  by (auto simp: UpdateLayerExtentFromBitstorePixelExtent_def Let_def)

lemma extent_update_step:
  assumes ext: "extent st = Some e" and le: "length e = 16" and lp: "length px = 8"
  shows "\<exists>e'. extent (UpdateLayerExtentFromBitstorePixelExtent st px) = Some e'
           \<and> length e' = 16
           \<and> e' ! 0 \<le> e ! 0 \<and> e' ! 1 \<le> e ! 1 \<and> e ! 2 \<le> e' ! 2 \<and> e ! 3 \<le> e' ! 3
           \<and> (e' ! 0 \<noteq> e ! 0 \<or> e' ! 12 \<noteq> e ! 12 \<longrightarrow> e ! 12 \<le> px ! 5)
           \<and> (e' ! 1 \<noteq> e ! 1 \<or> e' ! 13 \<noteq> e ! 13 \<longrightarrow> e ! 13 \<le> px ! 5)
           \<and> (e' ! 2 \<noteq> e ! 2 \<or> e' ! 14 \<noteq> e ! 14 \<longrightarrow> e ! 14 \<le> px ! 5)
           \<and> (e' ! 3 \<noteq> e ! 3 \<or> e' ! 15 \<noteq> e ! 15 \<longrightarrow> e ! 15 \<le> px ! 5)"
proof -
  define q where "q = c_vPixelExtentToMercExtent_u32 px (img_width st) (img_height st)"
  define e1 where "e1 = extent_edge_lower e q 0 12 0 2"
  define e2 where "e2 = extent_edge_lower e1 q 1 13 1 3"
  define e3 where "e3 = extent_edge_raise e2 q 2 14 2 0"
  define e4 where "e4 = extent_edge_raise e3 q 3 15 3 1"
  have lq: "length q = 8" and q5: "q ! 5 = px ! 5"
    by (simp_all add: q_def c_vPixelExtentToMercExtent_u32_keeps lp)
  have l1: "length e1 = 16" and l2: "length e2 = 16" and l3: "length e3 = 16"
    and l4: "length e4 = 16"
    by (simp_all add: e1_def e2_def e3_def e4_def le)
  have p1: "e1 ! 0 \<le> e ! 0" "e1 ! 0 \<noteq> e ! 0 \<or> e1 ! 12 \<noteq> e ! 12 \<longrightarrow> e ! 12 \<le> q ! 5"
    "\<And>k. k \<noteq> 0 \<Longrightarrow> k \<noteq> 12 \<Longrightarrow> e1 ! k = e ! k"
    using extent_edge_lower_props [of e q 0 12 0 2, OF le lq] unfolding e1_def by simp_all
  have p2: "e2 ! 1 \<le> e1 ! 1" "e2 ! 1 \<noteq> e1 ! 1 \<or> e2 ! 13 \<noteq> e1 ! 13 \<longrightarrow> e1 ! 13 \<le> q ! 5"
    "\<And>k. k \<noteq> 1 \<Longrightarrow> k \<noteq> 13 \<Longrightarrow> e2 ! k = e1 ! k"
    using extent_edge_lower_props [of e1 q 1 13 1 3, OF l1 lq] unfolding e2_def by simp_all
  have p3: "e2 ! 2 \<le> e3 ! 2" "e3 ! 2 \<noteq> e2 ! 2 \<or> e3 ! 14 \<noteq> e2 ! 14 \<longrightarrow> e2 ! 14 \<le> q ! 5"
    "\<And>k. k \<noteq> 2 \<Longrightarrow> k \<noteq> 14 \<Longrightarrow> e3 ! k = e2 ! k"
    using extent_edge_raise_props [of e2 q 2 14 2 0, OF l2 lq] unfolding e3_def by simp_all
  have p4: "e3 ! 3 \<le> e4 ! 3" "e4 ! 3 \<noteq> e3 ! 3 \<or> e4 ! 15 \<noteq> e3 ! 15 \<longrightarrow> e3 ! 15 \<le> q ! 5"
    "\<And>k. k \<noteq> 3 \<Longrightarrow> k \<noteq> 15 \<Longrightarrow> e4 ! k = e3 ! k"
    using extent_edge_raise_props [of e3 q 3 15 3 1, OF l3 lq] unfolding e4_def by simp_all
  have res: "extent (UpdateLayerExtentFromBitstorePixelExtent st px) = Some e4"
    unfolding UpdateLayerExtentFromBitstorePixelExtent_def Let_def ext option.case
      e4_def e3_def e2_def e1_def q_def
    by simp
  have a0: "e4 ! 0 = e1 ! 0" and a12: "e4 ! 12 = e1 ! 12"
    by (simp_all add: p2(3) p3(3) p4(3))
  have a1: "e4 ! 1 = e2 ! 1" and a13: "e4 ! 13 = e2 ! 13"
    and b1: "e1 ! 1 = e ! 1" and b13: "e1 ! 13 = e ! 13"
    by (simp_all add: p1(3) p3(3) p4(3))
  have a2: "e4 ! 2 = e3 ! 2" and a14: "e4 ! 14 = e3 ! 14"
    and b2: "e2 ! 2 = e ! 2" and b14: "e2 ! 14 = e ! 14"
    by (simp_all add: p1(3) p2(3) p4(3))
  have b3: "e3 ! 3 = e ! 3" and b15: "e3 ! 15 = e ! 15"
    by (simp_all add: p1(3) p2(3) p3(3))
  have c0: "e4 ! 0 \<le> e ! 0" "e4 ! 0 \<noteq> e ! 0 \<or> e4 ! 12 \<noteq> e ! 12 \<longrightarrow> e ! 12 \<le> px ! 5"
    using p1(1,2) unfolding a0 a12 q5 by blast+
  have c1: "e4 ! 1 \<le> e ! 1" "e4 ! 1 \<noteq> e ! 1 \<or> e4 ! 13 \<noteq> e ! 13 \<longrightarrow> e ! 13 \<le> px ! 5"
    using p2(1,2) unfolding a1 a13 b1 b13 q5 by blast+
  have c2: "e ! 2 \<le> e4 ! 2" "e4 ! 2 \<noteq> e ! 2 \<or> e4 ! 14 \<noteq> e ! 14 \<longrightarrow> e ! 14 \<le> px ! 5"
    using p3(1,2) unfolding a2 a14 b2 b14 q5 by blast+
  have c3: "e ! 3 \<le> e4 ! 3" "e4 ! 3 \<noteq> e ! 3 \<or> e4 ! 15 \<noteq> e ! 15 \<longrightarrow> e ! 15 \<le> px ! 5"
    using p4(1,2) unfolding b3 b15 q5 by blast+
  show ?thesis
    by (intro exI [of _ e4] conjI res l4 c0 c1 c2 c3)
qed
lemma extent_after_updates:
  assumes "extent st = None \<or> (\<exists>e. extent st = Some e \<and> length e = 16)"
  shows "\<exists>e. extent (foldl UpdateLayerExtentFromBitstorePixelExtent st (px # pxs)) = Some e
             \<and> length e = 16"
  using assms
proof (induction pxs arbitrary: st px)
  case Nil
  then show ?case using extent_update_seeds [of st px] by simp
next
  case (Cons p pxs)
  from extent_update_seeds [OF Cons.prems, of px]
  have "extent (UpdateLayerExtentFromBitstorePixelExtent st px) = None
        \<or> (\<exists>e. extent (UpdateLayerExtentFromBitstorePixelExtent st px) = Some e \<and> length e = 16)"
    by blast
  from Cons.IH [OF this, of p] show ?case by simp
qed

text \<open>
  C5 (as the code computes it).  Take an \<open>LBITS\<close> whose extent is still \<open>null\<close>, the
  call that seeds the extent from the master, any further calls, and then one more call
  with an 8-element pixel extent vector \<open>px\<close>.  That call can only widen the stored
  extent: \<open>minX\<close> and \<open>minY\<close> (elements 0 and 1) never increase, \<open>maxX\<close> and
  \<open>maxY\<close> (elements 2 and 3) never decrease.  An edge, or the zoom recorded for it
  (elements 12 to 15), is modified only when the source zoom \<open>px[5]\<close> of the
  contribution is at least the zoom recorded for that edge before the call.
\<close>

theorem layer_extent_only_widens:
  assumes "extent st0 = None" and "length px = 8"
  shows "\<exists>e e'.
           extent (foldl UpdateLayerExtentFromBitstorePixelExtent st0 (master # pxs)) = Some e
         \<and> extent (UpdateLayerExtentFromBitstorePixelExtent
                     (foldl UpdateLayerExtentFromBitstorePixelExtent st0 (master # pxs)) px)
             = Some e'
         \<and> e' ! 0 \<le> e ! 0 \<and> e' ! 1 \<le> e ! 1 \<and> e ! 2 \<le> e' ! 2 \<and> e ! 3 \<le> e' ! 3
         \<and> (e' ! 0 \<noteq> e ! 0 \<or> e' ! 12 \<noteq> e ! 12 \<longrightarrow> e ! 12 \<le> px ! 5)
         \<and> (e' ! 1 \<noteq> e ! 1 \<or> e' ! 13 \<noteq> e ! 13 \<longrightarrow> e ! 13 \<le> px ! 5)
         \<and> (e' ! 2 \<noteq> e ! 2 \<or> e' ! 14 \<noteq> e ! 14 \<longrightarrow> e ! 14 \<le> px ! 5)
         \<and> (e' ! 3 \<noteq> e ! 3 \<or> e' ! 15 \<noteq> e ! 15 \<longrightarrow> e ! 15 \<le> px ! 5)"
proof -
  from extent_after_updates [of st0 master pxs] assms(1)
  obtain e where e: "extent (foldl UpdateLayerExtentFromBitstorePixelExtent st0 (master # pxs)) = Some e"
    and le: "length e = 16"
    by blast
  from extent_update_step [OF e le assms(2)] e show ?thesis by blast
qed

theorem layer_extent_only_widens_witness:
  "\<exists>e e'.
     extent (foldl UpdateLayerExtentFromBitstorePixelExtent (new_LBITS 1 0 16)
               ([100, 100, 200, 200, 0, 0, 0, 0] # [])) = Some e
   \<and> extent (UpdateLayerExtentFromBitstorePixelExtent
               (foldl UpdateLayerExtentFromBitstorePixelExtent (new_LBITS 1 0 16)
                  ([100, 100, 200, 200, 0, 0, 0, 0] # []))
               [10, 200, 145, 255, 1, 1, 1, 0]) = Some e'
   \<and> e' ! 0 \<le> e ! 0 \<and> e' ! 1 \<le> e ! 1 \<and> e ! 2 \<le> e' ! 2 \<and> e ! 3 \<le> e' ! 3
   \<and> (e' ! 0 \<noteq> e ! 0 \<or> e' ! 12 \<noteq> e ! 12 \<longrightarrow> e ! 12 \<le> [10, 200, 145, 255, 1, 1, 1, 0] ! 5)
   \<and> (e' ! 1 \<noteq> e ! 1 \<or> e' ! 13 \<noteq> e ! 13 \<longrightarrow> e ! 13 \<le> [10, 200, 145, 255, 1, 1, 1, 0] ! 5)
   \<and> (e' ! 2 \<noteq> e ! 2 \<or> e' ! 14 \<noteq> e ! 14 \<longrightarrow> e ! 14 \<le> [10, 200, 145, 255, 1, 1, 1, 0] ! 5)
   \<and> (e' ! 3 \<noteq> e ! 3 \<or> e' ! 15 \<noteq> e ! 15 \<longrightarrow> e ! 15 \<le> [10, 200, 145, 255, 1, 1, 1, 0] ! 5)"
proof -
  have h1: "extent (new_LBITS 1 0 16) = None" by (simp add: new_LBITS_def)
  have h2: "length [10, 200, 145, 255, 1, 1, 1, 0 :: u32] = 8" by simp
  show ?thesis
    by (rule layer_extent_only_widens [OF h1 h2])
qed

text \<open>
  C5 as stated fails: the extent is widened.  The master tile (0, 0) at zoom 0 of a 256
  pixel layer, occupied in pixels 100 to 200, seeds \<open>maxX = 200 << 21 = 419430400\<close>.
  The member for tile (1, 0) at zoom 1, occupied in columns 10 to 145 and rows 200 to
  255, then raises \<open>maxX\<close> to \<open>401 << 20 = 420478976\<close>.
\<close>

theorem layer_extent_maxX_raised:
  "extent (UpdateLayerExtentFromBitstorePixelExtent (new_LBITS 1 0 16)
             [100, 100, 200, 200, 0, 0, 0, 0])
     = Some [209715200, 209715200, 419430400, 419430400, 0, 0, 0, 0, 0, 0, 0, 0, 0, 0, 0, 0]
   \<and> extent (UpdateLayerExtentFromBitstorePixelExtent
               (UpdateLayerExtentFromBitstorePixelExtent (new_LBITS 1 0 16)
                  [100, 100, 200, 200, 0, 0, 0, 0])
               [10, 200, 145, 255, 1, 1, 1, 0])
       = Some [209715200, 209715200, 420478976, 419430400, 0, 0, 0, 0, 0, 0, 0, 0, 0, 0, 1, 0]
   \<and> (419430400 :: u32) < 420478976"
  by code_simp

section \<open>The predicate\<close>

text \<open>
  C2.  While the index set is not ready, \<open>ShouldLoadTile\<close> returns \<open>true\<close> for every
  input, and leaves the object as it is.
\<close>

theorem not_ready_never_suppresses:
  assumes "\<not> isReady st"
  shows "LBITS_ShouldLoadTile select_and_fetch st lid x y z extent_u32 = Inr (True, st)"
  using assms by (simp add: LBITS_ShouldLoadTile_def)

theorem not_ready_never_suppresses_witness:
  "LBITS_ShouldLoadTile Inr (new_LBITS 2 0 16) 2 5 7 4 None = Inr (True, new_LBITS 2 0 16)"
proof -
  have "\<not> isReady (new_LBITS 2 0 16)" by (simp add: new_LBITS_def)
  then show ?thesis by (rule not_ready_never_suppresses)
qed

lemma BITS_ShouldLoadTile_False_iff:
  "(\<exists>bs'. BITS_ShouldLoadTile bs lid x y z ext = Inr (False, bs'))
   \<longleftrightarrow> bs_isReady bs \<and> \<not> bs_needGet bs \<and> bs_layerId bs = lid \<and> bs_z bs \<le> z
       \<and> CanIndexTile bs x y z ext
       \<and> (\<exists>bs'. (if bs_needProc bs then FinishLazyLoad bs else Inr bs) = Inr bs'
                  \<and> DoesTileIntersectData bs' x y z = Inr False)"
  by (auto simp: BITS_ShouldLoadTile_def split: sum.splits if_splits)

lemma members_loop_veto:
  "members_loop lazy lid x y z ext True np bss = Inr (r, bss')
   \<Longrightarrow> r = False \<longleftrightarrow> (\<exists>bs\<in>set bss. \<exists>bs'. BITS_ShouldLoadTile bs lid x y z ext = Inr (False, bs'))"
proof (induction bss arbitrary: np bss')
  case Nil
  then show ?case by simp
next
  case (Cons bs rest)
  have "\<exists>sl bs1. BITS_ShouldLoadTile bs lid x y z ext = Inr (sl, bs1)"
  proof (cases "BITS_ShouldLoadTile bs lid x y z ext")
    case (Inl e)
    with Cons.prems show ?thesis by (simp add: Let_def split: if_splits)
  next
    case (Inr p)
    then show ?thesis by (cases p) simp
  qed
  then obtain sl bs1 where ans: "BITS_ShouldLoadTile bs lid x y z ext = Inr (sl, bs1)"
    by blast
  show ?case
  proof (cases sl)
    case False
    with Cons.prems ans have "r = False"
      by (simp add: Let_def split: if_splits)
    with False ans show ?thesis by auto
  next
    case True
    have "\<exists>np' rest'. members_loop lazy lid x y z ext True np' rest = Inr (r, rest')"
    proof (cases "members_loop lazy lid x y z ext True (if lazy then bs_needProc bs else np) rest")
      case (Inl e)
      with Cons.prems ans True show ?thesis by (simp add: Let_def split: if_splits)
    next
      case (Inr p)
      with Cons.prems ans True show ?thesis
        by (cases p) (auto simp: Let_def split: if_splits)
    qed
    then obtain np' rest' where
      rec: "members_loop lazy lid x y z ext True np' rest = Inr (r, rest')"
      by blast
    from Cons.IH [OF rec] True ans show ?thesis by auto
  qed
qed
text \<open>
  C1 (as the code computes it).  Let the index set be ready with a matching
  \<open>layerId\<close>, let \<open>st1\<close> be the object after the lazy initialisation that the call
  runs first (the object itself when there is none to run), and let the query be within
  \<open>[minZ, maxZ]\<close>, in range for \<open>z\<close> and inside the layer extent.  When the call
  returns, it returns \<open>false\<close> exactly when at least one member vetoes the load: a
  member that is ready, has \<open>needGet\<close> false, the same \<open>layerId\<close>, a zoom of at most
  \<open>z\<close>, passes \<open>CanIndexTile\<close>, and whose scan (after finishing its own lazy load)
  finds no data in the tile.  Members that are not applicable and members that find data
  do not veto, and do not overrule the veto of another member.
\<close>

theorem ShouldLoadTile_false_iff_some_member_vetoes:
  assumes "isReady st" and "layerId st = lid"
    and "(if idx_lazyload_detail st \<and> \<not> didLazyLoad st
          then FinishLazyLoadInit select_and_fetch st else Inr st) = Inr st1"
    and "minZ st1 \<le> z" and "z \<le> maxZ st1" and "0 \<le> x" and "0 \<le> y"
    and "x < js_shl 1 z" and "y < js_shl 1 z"
    and "IsTileInExtent st1 x y z extent_u32"
    and "LBITS_ShouldLoadTile select_and_fetch st lid x y z extent_u32 = Inr (r, st2)"
  shows "r = False \<longleftrightarrow>
         (\<exists>bs\<in>set (bitstores st1).
            bs_isReady bs \<and> \<not> bs_needGet bs \<and> bs_layerId bs = lid \<and> bs_z bs \<le> z
            \<and> CanIndexTile bs x y z extent_u32
            \<and> (\<exists>bs'. (if bs_needProc bs then FinishLazyLoad bs else Inr bs) = Inr bs'
                       \<and> DoesTileIntersectData bs' x y z = Inr False))"
proof -
  have "\<exists>members. members_loop (idx_lazyload_detail st1 \<and> \<not> idx_lazyload_dim st1)
                     lid x y z extent_u32 True False (bitstores st1) = Inr (r, members)"
  proof (cases "members_loop (idx_lazyload_detail st1 \<and> \<not> idx_lazyload_dim st1)
                     lid x y z extent_u32 True False (bitstores st1)")
    case (Inl e)
    with assms show ?thesis by (simp add: LBITS_ShouldLoadTile_def)
  next
    case (Inr p)
    with assms show ?thesis by (cases p) (simp add: LBITS_ShouldLoadTile_def)
  qed
  then obtain members where
    "members_loop (idx_lazyload_detail st1 \<and> \<not> idx_lazyload_dim st1)
       lid x y z extent_u32 True False (bitstores st1) = Inr (r, members)"
    by blast
  from members_loop_veto [OF this] show ?thesis
    by (simp only: BITS_ShouldLoadTile_False_iff)
qed
lemma two_index_layer_built: "two_index_layer = Inr two_index_state"
  by code_simp

theorem ShouldLoadTile_false_iff_some_member_vetoes_witness:
  "LBITS_ShouldLoadTile Inr two_index_state 1 6 6 3 None = Inr (False, two_index_state)
   \<and> (False = False \<longleftrightarrow>
        (\<exists>bs\<in>set (bitstores two_index_state).
           bs_isReady bs \<and> \<not> bs_needGet bs \<and> bs_layerId bs = 1 \<and> bs_z bs \<le> 3
           \<and> CanIndexTile bs 6 6 3 None
           \<and> (\<exists>bs'. (if bs_needProc bs then FinishLazyLoad bs else Inr bs) = Inr bs'
                      \<and> DoesTileIntersectData bs' 6 6 3 = Inr False)))"
proof -
  let ?S = "two_index_state"
  have h1: "isReady ?S" by code_simp
  have h2: "layerId ?S = 1" by code_simp
  have h3: "(if idx_lazyload_detail ?S \<and> \<not> didLazyLoad ?S
             then FinishLazyLoadInit Inr ?S else Inr ?S) = Inr ?S"
    by code_simp
  have h4: "minZ ?S \<le> 3" by code_simp
  have h5: "3 \<le> maxZ ?S" by code_simp
  have h6: "(0::int) \<le> 6" by simp
  have h7: "6 < js_shl 1 3" by code_simp
  have h8: "IsTileInExtent ?S 6 6 3 None" by code_simp
  have h9: "LBITS_ShouldLoadTile Inr ?S 1 6 6 3 None = Inr (False, ?S)" by code_simp
  from ShouldLoadTile_false_iff_some_member_vetoes [OF h1 h2 h3 h4 h5 h6 h6 h7 h7 h8 h9] h9
  show ?thesis by (rule conjI [rotated])
qed

text \<open>
  C1 as stated fails.  In the two-index layer, tile (6, 6) at zoom 3 has no data.  Both
  members are ready and pass \<open>CanIndexTile\<close>; the zoom 0 index reports that the tile
  intersects data (its single pixel (3, 3) covers tiles 6 and 7), the zoom 1 index
  reports that it does not, and the predicate returns \<open>false\<close>.  The same holds when
  the caller passes the extent of the tile.  For tile (7, 7), which has data, both
  members report data and the predicate returns \<open>true\<close>.
\<close>

theorem one_member_veto_suffices:
  "two_index_layer = Inr two_index_state
   \<and> isReady two_index_state \<and> layerId two_index_state = 1
   \<and> minZ two_index_state \<le> 3 \<and> 3 \<le> maxZ two_index_state \<and> 6 < js_shl 1 3
   \<and> IsTileInExtent two_index_state 6 6 3 None
   \<and> bitstores two_index_state = [master_index, detail_index]
   \<and> bs_isReady master_index \<and> CanIndexTile master_index 6 6 3 None
   \<and> DoesTileIntersectData master_index 6 6 3 = Inr True
   \<and> bs_isReady detail_index \<and> CanIndexTile detail_index 6 6 3 None
   \<and> DoesTileIntersectData detail_index 6 6 3 = Inr False
   \<and> LBITS_ShouldLoadTile Inr two_index_state 1 6 6 3 None = Inr (False, two_index_state)
   \<and> CanIndexTile master_index 6 6 3
         (Some (c_GetNewPxExtentVector_u32 6 6 3 21 (Some 4) (Some 4)))
   \<and> CanIndexTile detail_index 6 6 3
         (Some (c_GetNewPxExtentVector_u32 6 6 3 21 (Some 4) (Some 4)))
   \<and> LBITS_ShouldLoadTile Inr two_index_state 1 6 6 3
         (Some (c_GetNewPxExtentVector_u32 6 6 3 21 (Some 4) (Some 4)))
       = Inr (False, two_index_state)
   \<and> DoesTileIntersectData master_index 7 7 3 = Inr True
   \<and> DoesTileIntersectData detail_index 7 7 3 = Inr True
   \<and> LBITS_ShouldLoadTile Inr two_index_state 1 7 7 3 None = Inr (True, two_index_state)"
  by (intro conjI two_index_layer_built; code_simp)

section \<open>Rasters of the wrong shape\<close>

text \<open>
  A raster whose length fails the test of \<open>GetBitmapFromRGBA8888Tile\<close> builds no index,
  and the \<open>libpng\<close> path rejects a raster of the wrong length and leaves the object as
  it is.
\<close>

lemma GetBitmapFromRGBA8888Tile_mismatch:
  "int (length src) \<noteq> js_shl (int (w * h)) 2
   \<Longrightarrow> GetBitmapFromRGBA8888Tile (Some src) unshadow unstroke ch t ut w h = Inr None"
  by (simp add: GetBitmapFromRGBA8888Tile_def)

lemma libpng_path_rejects:
  "length rgba \<noteq> img_width st * img_height st * 4
   \<Longrightarrow> AddAsync_PNG_URL_libpng_callback select_and_fetch st rgba x y z shouldAutoload = Inr st"
  by (simp add: AddAsync_PNG_URL_libpng_callback_def)

lemma AddBitstoreFromRGBA8888_NoLazyLoad_no_index:
  assumes "GetBitmapFromRGBA8888Tile rgba (img_fx_unshadow st) (img_fx_unstroke st)
             (img_ch_offset st) (img_alpha_threshold st) (img_unshd_threshold st)
             (img_width st) (img_height st) = Inr None"
  shows "AddBitstoreFromRGBA8888_NoLazyLoad st rgba x y z
         = Inr (UpdateLayerExtentFromBitstorePixelExtent
                  (st\<lparr>bitstores := bitstores st
                        @ [(new_BITS (layerId st) x y z (img_width st) (img_height st) None False)
                             \<lparr>bs_isReady := True\<rparr>]\<rparr>)
                  (c_GetPixelExtentFromBitstore None x y z (img_width st) (img_height st)))"
  using assms
  by (simp add: AddBitstoreFromRGBA8888_NoLazyLoad_def SetBitmapFromRGBA8888Tile_def
      GetPixelExtentFromBitstore_def new_BITS_def)

text \<open>
  C9, the code on a raster of the wrong shape.  \<open>GetBitmapFromRGBA8888Tile\<close> builds no
  index from it and the \<open>libpng\<close> path rejects it.  The canvas path tests the width of
  the image only: it adds a ready member without data and makes the layer ready, and the
  predicate then throws a TypeError, for the master tile and for tile (100, 37) at
  zoom 8 alike.
\<close>

theorem canvas_path_adds_member_without_data:
  "length half_height_raster \<noteq> 256 * 256 * 4
   \<and> GetBitmapFromRGBA8888Tile (Some half_height_raster) False False 3 1 1 256 256 = Inr None
   \<and> AddAsync_PNG_URL_libpng_callback select_and_fetch (new_LBITS 1 0 8) half_height_raster
         0 0 0 True = Inr (new_LBITS 1 0 8)
   \<and> AddAsync_PNG_ImgURL_Canvas_onload select_and_fetch (new_LBITS 1 0 8) 256
         half_height_raster 0 0 0 True = Inr dataless_layer
   \<and> LBITS_ShouldLoadTile select_and_fetch dataless_layer 1 0 0 0 None = Inl TypeError
   \<and> LBITS_ShouldLoadTile select_and_fetch dataless_layer 1 100 37 8 None = Inl TypeError"
proof -
  let ?st = "new_LBITS 1 0 8"
  let ?X = "UpdateLayerExtentFromBitstorePixelExtent
              (?st\<lparr>bitstores := bitstores ?st
                    @ [(new_BITS (layerId ?st) 0 0 0 256 256 None False)
                         \<lparr>bs_isReady := True\<rparr>]\<rparr>)
              (c_GetPixelExtentFromBitstore None 0 0 0 256 256)"
  have len: "length half_height_raster = 131072"
    by (simp add: half_height_raster_def)
  have a: "length half_height_raster \<noteq> 256 * 256 * 4" by (simp add: len)
  have shl: "js_shl 65536 2 = 262144" by code_simp
  have b: "GetBitmapFromRGBA8888Tile (Some half_height_raster) False False 3 1 1 256 256
           = Inr None"
    by (rule GetBitmapFromRGBA8888Tile_mismatch) (simp add: len shl)
  have c: "AddAsync_PNG_URL_libpng_callback select_and_fetch ?st half_height_raster
             0 0 0 True = Inr ?st"
    by (rule libpng_path_rejects) (simp add: len new_LBITS_def)
  have opts: "img_fx_unshadow ?st = False" "img_fx_unstroke ?st = False" "img_ch_offset ?st = 3"
    "img_alpha_threshold ?st = 1" "img_unshd_threshold ?st = 1"
    "img_width ?st = 256" "img_height ?st = 256"
    "idx_lazyload_detail ?st" "idx_lazyload_dim ?st"
    by (simp_all add: new_LBITS_def)
  have n: "AddBitstoreFromRGBA8888_NoLazyLoad ?st (Some half_height_raster) 0 0 0 = Inr ?X"
    using AddBitstoreFromRGBA8888_NoLazyLoad_no_index
            [of "Some half_height_raster" ?st 0 0 0, unfolded opts, OF b] .
  have x1: "idx_lazyload_detail ?X" by code_simp
  have x2: "\<not> wantedForceLoad ?X" by code_simp
  have x3: "?X\<lparr>isReady := True\<rparr> = dataless_layer" by code_simp
  have t: "autoload_tail select_and_fetch ?X True = Inr dataless_layer"
    unfolding autoload_tail_def
    by (simp only: x1 x2 x3 sum.case simp_thms if_True if_False)
  have d: "AddAsync_PNG_ImgURL_Canvas_onload select_and_fetch ?st 256
             half_height_raster 0 0 0 True = Inr dataless_layer"
    unfolding AddAsync_PNG_ImgURL_Canvas_onload_def AddBitstoreFromRGBA8888_def Let_def
    by (simp only: opts n t sum.case simp_thms if_True if_False)
  have e: "LBITS_ShouldLoadTile select_and_fetch dataless_layer 1 0 0 0 None = Inl TypeError"
    by code_simp
  have f: "LBITS_ShouldLoadTile select_and_fetch dataless_layer 1 100 37 8 None = Inl TypeError"
    by code_simp
  show ?thesis by (intro conjI a b c d e f)
qed

end
